theory Spec2Isabelle
  imports Main "HOL-Library.Word"
begin

unbundle bit_operations_syntax

section \<open>Scalar types of the header\<close>

text \<open>
  A C++ \<open>float\<close> is its IEEE-754 single precision bit pattern. The header only ever
  compares floats (\<open>!=\<close> and \<open><\<close>), so the two comparisons are written out on the
  bits: a NaN is unordered and different from everything, itself included, and the two
  zeros are the same value.
\<close>

type_synonym float = "32 word"

definition isnan :: "float \<Rightarrow> bool" where
  "isnan f = (0x7F800000 < (f AND 0x7FFFFFFF))"

definition float_rank :: "float \<Rightarrow> int" where
  "float_rank f =
     (if bit f 31 then - uint (f AND 0x7FFFFFFF) else uint (f AND 0x7FFFFFFF))"

definition float_lt :: "float \<Rightarrow> float \<Rightarrow> bool" where
  "float_lt x y = (\<not> isnan x \<and> \<not> isnan y \<and> float_rank x < float_rank y)"

definition float_ne :: "float \<Rightarrow> float \<Rightarrow> bool" where
  "float_ne x y = (isnan x \<or> isnan y \<or> float_rank x \<noteq> float_rank y)"

definition float_eq :: "float \<Rightarrow> float \<Rightarrow> bool" where
  "float_eq x y = (\<not> float_ne x y)"

text \<open>\<open>fvec4\<close> and \<open>ivec4\<close>: four components, read with \<open>r()\<close>, \<open>g()\<close>, \<open>b()\<close>, \<open>a()\<close>.\<close>

datatype 'a vec4 = Vec4 (vr: 'a) (vg: 'a) (vb: 'a) (va: 'a)

type_synonym fvec4 = "float vec4"
type_synonym ivec4 = "int vec4"

text \<open>
  \<open>Image*\<close>, \<open>Font*\<close>, \<open>Transform*\<close> and the other object references are addresses;
  \<open>NULL\<close> is address 0. \<open>ref<T>\<close> compares as the address it holds.
\<close>

type_synonym ptr = nat

definition NULL :: ptr where
  "NULL = 0"

datatype ETextureMode = TextureMode_Clamp | TextureMode_Repeat

fun ETextureMode_val :: "ETextureMode \<Rightarrow> int" where
  "ETextureMode_val TextureMode_Clamp = 0"
| "ETextureMode_val TextureMode_Repeat = 1"

text \<open>
  The OpenGL wrapper enumerations (\<open>ELogicOp\<close>, \<open>EBlendEquation\<close>, \<open>EBlendFactor\<close>,
  \<open>EFunction\<close>, \<open>EStencilOp\<close>) are declared in a header that is not part of the
  sources at hand. A value of such an enumeration is the integer it stands for, which
  is all that \<open>!=\<close> and \<open><\<close> look at.
\<close>

type_synonym ELogicOp = int
type_synonym EBlendEquation = int
type_synonym EBlendFactor = int
type_synonym EFunction = int
type_synonym EStencilOp = int

text \<open>
  What the header takes from the rest of the library: the named enumerators and the
  colour constant used by the constructor of \<open>State\<close>, and the font manager's
  \<open>acquireFont\<close>. They are parameters of the model.
\<close>

record Externs =
  white :: fvec4
  LO_COPY :: ELogicOp
  BE_FUNC_ADD :: EBlendEquation
  BF_SRC_ALPHA :: EBlendFactor
  BF_ONE_MINUS_SRC_ALPHA :: EBlendFactor
  FU_ALWAYS :: EFunction
  SO_KEEP :: EStencilOp
  acquireFont :: "string \<Rightarrow> int \<Rightarrow> bool \<Rightarrow> ptr"

section \<open>The internal class State\<close>

record State =
  mColor :: fvec4
  mPointSize :: int
  mImage :: ptr
  mTextureMode :: ETextureMode
  mLogicOp :: ELogicOp
  mLineWidth :: float
  mPointSmoothing :: bool
  mLineSmoothing :: bool
  mPolygonSmoothing :: bool
  mLineStipple :: "16 word"
  mPolyStipple :: "8 word list"
  mBlendEquationRGB :: EBlendEquation
  mBlendEquationAlpha :: EBlendEquation
  mBlendFactorSrcRGB :: EBlendFactor
  mBlendFactorDstRGB :: EBlendFactor
  mBlendFactorSrcAlpha :: EBlendFactor
  mBlendFactorDstAlpha :: EBlendFactor
  mAlphaFuncRefValue :: float
  mAlphaFunc :: EFunction
  mFont :: ptr
  mColorMask :: ivec4
  mStencilTestEnabled :: bool
  mStencilMask :: "32 word"
  mStencil_SFail :: EStencilOp
  mStencil_DpFail :: EStencilOp
  mStencil_DpPass :: EStencilOp
  mStencil_Function :: EFunction
  mStencil_RefValue :: int
  mStencil_FunctionMask :: "32 word"

text \<open>
  The constructor assigns every member but \<open>mStencil_DpPass\<close> (it assigns
  \<open>mStencil_SFail\<close> twice). A member of enumeration type that no assignment reaches
  keeps whatever the storage held: that value is the argument \<open>junk\<close>.
\<close>

definition State_ctor :: "Externs \<Rightarrow> EStencilOp \<Rightarrow> State" where
  "State_ctor ext junk =
     \<lparr> mColor = white ext,
       mPointSize = 5,
       mImage = NULL,
       mTextureMode = TextureMode_Clamp,
       mLogicOp = LO_COPY ext,
       mLineWidth = 0x3F800000,
       mPointSmoothing = True,
       mLineSmoothing = True,
       mPolygonSmoothing = False,
       mLineStipple = 0xFFFF,
       mPolyStipple = replicate (32 * 32 div 8) 0xFF,
       mBlendEquationRGB = BE_FUNC_ADD ext,
       mBlendEquationAlpha = BE_FUNC_ADD ext,
       mBlendFactorSrcRGB = BF_SRC_ALPHA ext,
       mBlendFactorDstRGB = BF_ONE_MINUS_SRC_ALPHA ext,
       mBlendFactorSrcAlpha = BF_SRC_ALPHA ext,
       mBlendFactorDstAlpha = BF_ONE_MINUS_SRC_ALPHA ext,
       mAlphaFuncRefValue = 0,
       mAlphaFunc = FU_ALWAYS ext,
       mFont = acquireFont ext ''/font/bitstream-vera/VeraMono.ttf'' 10 False,
       mColorMask = Vec4 1 1 1 1,
       mStencilTestEnabled = False,
       mStencilMask = 0xFFFFFFFF,
       mStencil_SFail = SO_KEEP ext,
       mStencil_DpFail = SO_KEEP ext,
       mStencil_DpPass = junk,
       mStencil_Function = FU_ALWAYS ext,
       mStencil_RefValue = 0,
       mStencil_FunctionMask = NOT 0 \<rparr>"

text \<open>
  \<open>memcmp(p, q, n)\<close> on unsigned bytes: the difference of the first pair of bytes
  that differ among the first \<open>n\<close>, 0 when there is none. Both arrays of \<open>State\<close>
  hold \<open>32*32/8\<close> bytes, so the last equation (an array that ends early) is never
  reached from there.
\<close>

fun memcmp :: "8 word list \<Rightarrow> 8 word list \<Rightarrow> nat \<Rightarrow> int" where
  "memcmp xs ys 0 = 0"
| "memcmp (x # xs) (y # ys) (Suc n) =
     (if x \<noteq> y then uint x - uint y else memcmp xs ys n)"
| "memcmp xs ys (Suc n) = 0"

text \<open>\<open>State::operator<\<close>, branch by branch.\<close>

definition State_less :: "State \<Rightarrow> State \<Rightarrow> bool" where
  "State_less s other =
    (if float_ne (vr (mColor s)) (vr (mColor other))
       then float_lt (vr (mColor s)) (vr (mColor other))
     else if float_ne (vg (mColor s)) (vg (mColor other))
       then float_lt (vg (mColor s)) (vg (mColor other))
     else if float_ne (vb (mColor s)) (vb (mColor other))
       then float_lt (vb (mColor s)) (vb (mColor other))
     else if float_ne (va (mColor s)) (va (mColor other))
       then float_lt (va (mColor s)) (va (mColor other))
     else if mPointSize s \<noteq> mPointSize other
       then mPointSize s < mPointSize other
     else if mImage s \<noteq> mImage other
       then mImage s < mImage other
     else if mTextureMode s \<noteq> mTextureMode other
       then ETextureMode_val (mTextureMode s) < ETextureMode_val (mTextureMode other)
     else if mPolygonSmoothing s \<noteq> mPolygonSmoothing other
       then mPolygonSmoothing s < mPolygonSmoothing other
     else if mPointSmoothing s \<noteq> mPointSmoothing other
       then mPointSmoothing s < mPointSmoothing other
     else if mLineSmoothing s \<noteq> mLineSmoothing other
       then mLineSmoothing s < mLineSmoothing other
     else if float_ne (mLineWidth s) (mLineWidth other)
       then float_lt (mLineWidth s) (mLineWidth other)
     else if mLineStipple s \<noteq> mLineStipple other
       then mLineStipple s < mLineStipple other
     else if mLogicOp s \<noteq> mLogicOp other
       then mLogicOp s < mLogicOp other
     else if memcmp (mPolyStipple s) (mPolyStipple other) (32 * 32 div 8) \<noteq> 0
       then memcmp (mPolyStipple s) (mPolyStipple other) (32 * 32 div 8) < 0
     else if mBlendEquationRGB s \<noteq> mBlendEquationRGB other
       then mBlendEquationRGB s < mBlendEquationRGB other
     else if mBlendEquationAlpha s \<noteq> mBlendEquationAlpha other
       then mBlendEquationAlpha s < mBlendEquationAlpha other
     else if mBlendFactorSrcRGB s \<noteq> mBlendFactorSrcRGB other
       then mBlendFactorSrcRGB s < mBlendFactorSrcRGB other
     else if mBlendFactorDstRGB s \<noteq> mBlendFactorDstRGB other
       then mBlendFactorDstRGB s < mBlendFactorDstRGB other
     else if mBlendFactorSrcAlpha s \<noteq> mBlendFactorSrcAlpha other
       then mBlendFactorSrcAlpha s < mBlendFactorSrcAlpha other
     else if mBlendFactorDstAlpha s \<noteq> mBlendFactorDstAlpha other
       then mBlendFactorDstAlpha s < mBlendFactorDstAlpha other
     else if float_ne (mAlphaFuncRefValue s) (mAlphaFuncRefValue other)
       then float_lt (mAlphaFuncRefValue s) (mAlphaFuncRefValue other)
     else if mAlphaFunc s \<noteq> mAlphaFunc other
       then mAlphaFunc s < mAlphaFunc other
     else if mFont s \<noteq> mFont other
       then mFont s < mFont other
     else if vr (mColorMask s) \<noteq> vr (mColorMask other)
       then vr (mColorMask s) < vr (mColorMask other)
     else if vg (mColorMask s) \<noteq> vg (mColorMask other)
       then vg (mColorMask s) < vg (mColorMask other)
     else if vb (mColorMask s) \<noteq> vb (mColorMask other)
       then vb (mColorMask s) < vb (mColorMask other)
     else if va (mColorMask s) \<noteq> va (mColorMask other)
       then va (mColorMask s) < va (mColorMask other)
     else if mStencilMask s \<noteq> mStencilMask other
       then mStencilMask s < mStencilMask other
     else if mStencilTestEnabled s \<noteq> mStencilTestEnabled other
       then mStencilTestEnabled s < mStencilTestEnabled other
     else if mStencil_SFail s \<noteq> mStencil_SFail other
       then mStencil_SFail s < mStencil_SFail other
     else if mStencil_DpFail s \<noteq> mStencil_DpFail other
       then mStencil_DpFail s < mStencil_DpFail other
     else if mStencil_DpPass s \<noteq> mStencil_DpPass other
       then mStencil_DpPass s < mStencil_DpPass other
     else if mStencil_Function s \<noteq> mStencil_Function other
       then mStencil_Function s < mStencil_Function other
     else if mStencil_RefValue s \<noteq> mStencil_RefValue other
       then mStencil_RefValue s < mStencil_RefValue other
     else if mStencil_FunctionMask s \<noteq> mStencil_FunctionMask other
       then mStencil_FunctionMask s < mStencil_FunctionMask other
     else False)"

text \<open>
  The comparison is a lexicographic one: a list of pairs (the fields differ, the field
  of the left state is the smaller), decided by the first pair that differs.
\<close>

fun lex_less :: "(bool \<times> bool) list \<Rightarrow> bool" where
  "lex_less [] = False"
| "lex_less ((ne, lt) # rest) = (if ne then lt else lex_less rest)"

definition State_cmps :: "State \<Rightarrow> State \<Rightarrow> (bool \<times> bool) list" where
  "State_cmps s other =
    [(float_ne (vr (mColor s)) (vr (mColor other)), float_lt (vr (mColor s)) (vr (mColor other))),
     (float_ne (vg (mColor s)) (vg (mColor other)), float_lt (vg (mColor s)) (vg (mColor other))),
     (float_ne (vb (mColor s)) (vb (mColor other)), float_lt (vb (mColor s)) (vb (mColor other))),
     (float_ne (va (mColor s)) (va (mColor other)), float_lt (va (mColor s)) (va (mColor other))),
     (mPointSize s \<noteq> mPointSize other, mPointSize s < mPointSize other),
     (mImage s \<noteq> mImage other, mImage s < mImage other),
     (mTextureMode s \<noteq> mTextureMode other,
        ETextureMode_val (mTextureMode s) < ETextureMode_val (mTextureMode other)),
     (mPolygonSmoothing s \<noteq> mPolygonSmoothing other, mPolygonSmoothing s < mPolygonSmoothing other),
     (mPointSmoothing s \<noteq> mPointSmoothing other, mPointSmoothing s < mPointSmoothing other),
     (mLineSmoothing s \<noteq> mLineSmoothing other, mLineSmoothing s < mLineSmoothing other),
     (float_ne (mLineWidth s) (mLineWidth other), float_lt (mLineWidth s) (mLineWidth other)),
     (mLineStipple s \<noteq> mLineStipple other, mLineStipple s < mLineStipple other),
     (mLogicOp s \<noteq> mLogicOp other, mLogicOp s < mLogicOp other),
     (memcmp (mPolyStipple s) (mPolyStipple other) (32 * 32 div 8) \<noteq> 0,
        memcmp (mPolyStipple s) (mPolyStipple other) (32 * 32 div 8) < 0),
     (mBlendEquationRGB s \<noteq> mBlendEquationRGB other, mBlendEquationRGB s < mBlendEquationRGB other),
     (mBlendEquationAlpha s \<noteq> mBlendEquationAlpha other, mBlendEquationAlpha s < mBlendEquationAlpha other),
     (mBlendFactorSrcRGB s \<noteq> mBlendFactorSrcRGB other, mBlendFactorSrcRGB s < mBlendFactorSrcRGB other),
     (mBlendFactorDstRGB s \<noteq> mBlendFactorDstRGB other, mBlendFactorDstRGB s < mBlendFactorDstRGB other),
     (mBlendFactorSrcAlpha s \<noteq> mBlendFactorSrcAlpha other, mBlendFactorSrcAlpha s < mBlendFactorSrcAlpha other),
     (mBlendFactorDstAlpha s \<noteq> mBlendFactorDstAlpha other, mBlendFactorDstAlpha s < mBlendFactorDstAlpha other),
     (float_ne (mAlphaFuncRefValue s) (mAlphaFuncRefValue other),
        float_lt (mAlphaFuncRefValue s) (mAlphaFuncRefValue other)),
     (mAlphaFunc s \<noteq> mAlphaFunc other, mAlphaFunc s < mAlphaFunc other),
     (mFont s \<noteq> mFont other, mFont s < mFont other),
     (vr (mColorMask s) \<noteq> vr (mColorMask other), vr (mColorMask s) < vr (mColorMask other)),
     (vg (mColorMask s) \<noteq> vg (mColorMask other), vg (mColorMask s) < vg (mColorMask other)),
     (vb (mColorMask s) \<noteq> vb (mColorMask other), vb (mColorMask s) < vb (mColorMask other)),
     (va (mColorMask s) \<noteq> va (mColorMask other), va (mColorMask s) < va (mColorMask other)),
     (mStencilMask s \<noteq> mStencilMask other, mStencilMask s < mStencilMask other),
     (mStencilTestEnabled s \<noteq> mStencilTestEnabled other, mStencilTestEnabled s < mStencilTestEnabled other),
     (mStencil_SFail s \<noteq> mStencil_SFail other, mStencil_SFail s < mStencil_SFail other),
     (mStencil_DpFail s \<noteq> mStencil_DpFail other, mStencil_DpFail s < mStencil_DpFail other),
     (mStencil_DpPass s \<noteq> mStencil_DpPass other, mStencil_DpPass s < mStencil_DpPass other),
     (mStencil_Function s \<noteq> mStencil_Function other, mStencil_Function s < mStencil_Function other),
     (mStencil_RefValue s \<noteq> mStencil_RefValue other, mStencil_RefValue s < mStencil_RefValue other),
     (mStencil_FunctionMask s \<noteq> mStencil_FunctionMask other,
        mStencil_FunctionMask s < mStencil_FunctionMask other)]"

definition mirrored :: "bool \<times> bool \<Rightarrow> bool \<times> bool \<Rightarrow> bool" where
  "mirrored p q = (fst p = fst q \<and> (fst p \<longrightarrow> snd p \<or> snd q))"

text \<open>
  Two states are equal under the order when neither is less than the other: this is
  the test by which \<open>std::map<State, ...>\<close> takes two keys for the same key.
\<close>

definition State_equiv :: "State \<Rightarrow> State \<Rightarrow> bool" where
  "State_equiv a b = (\<not> State_less a b \<and> \<not> State_less b a)"

text \<open>Every compared field is equal (\<open>==\<close> of the field's type) in both states.\<close>

definition State_fields_equal :: "State \<Rightarrow> State \<Rightarrow> bool" where
  "State_fields_equal a b =
    (float_eq (vr (mColor a)) (vr (mColor b)) \<and> float_eq (vg (mColor a)) (vg (mColor b)) \<and>
     float_eq (vb (mColor a)) (vb (mColor b)) \<and> float_eq (va (mColor a)) (va (mColor b)) \<and>
     mPointSize a = mPointSize b \<and> mImage a = mImage b \<and> mTextureMode a = mTextureMode b \<and>
     mPolygonSmoothing a = mPolygonSmoothing b \<and> mPointSmoothing a = mPointSmoothing b \<and>
     mLineSmoothing a = mLineSmoothing b \<and> float_eq (mLineWidth a) (mLineWidth b) \<and>
     mLineStipple a = mLineStipple b \<and> mLogicOp a = mLogicOp b \<and>
     mPolyStipple a = mPolyStipple b \<and>
     mBlendEquationRGB a = mBlendEquationRGB b \<and> mBlendEquationAlpha a = mBlendEquationAlpha b \<and>
     mBlendFactorSrcRGB a = mBlendFactorSrcRGB b \<and> mBlendFactorDstRGB a = mBlendFactorDstRGB b \<and>
     mBlendFactorSrcAlpha a = mBlendFactorSrcAlpha b \<and> mBlendFactorDstAlpha a = mBlendFactorDstAlpha b \<and>
     float_eq (mAlphaFuncRefValue a) (mAlphaFuncRefValue b) \<and> mAlphaFunc a = mAlphaFunc b \<and>
     mFont a = mFont b \<and>
     vr (mColorMask a) = vr (mColorMask b) \<and> vg (mColorMask a) = vg (mColorMask b) \<and>
     vb (mColorMask a) = vb (mColorMask b) \<and> va (mColorMask a) = va (mColorMask b) \<and>
     mStencilMask a = mStencilMask b \<and> mStencilTestEnabled a = mStencilTestEnabled b \<and>
     mStencil_SFail a = mStencil_SFail b \<and> mStencil_DpFail a = mStencil_DpFail b \<and>
     mStencil_DpPass a = mStencil_DpPass b \<and> mStencil_Function a = mStencil_Function b \<and>
     mStencil_RefValue a = mStencil_RefValue b \<and> mStencil_FunctionMask a = mStencil_FunctionMask b)"

text \<open>
  The array \<open>mPolyStipple\<close> has \<open>32*32/8\<close> bytes in every \<open>State\<close>; a state whose
  float members (colour, line width, alpha reference) hold no NaN is an ordinary one.
\<close>

definition State_wf :: "State \<Rightarrow> bool" where
  "State_wf s = (length (mPolyStipple s) = 32 * 32 div 8)"

definition State_no_nan :: "State \<Rightarrow> bool" where
  "State_no_nan s =
     (\<not> isnan (vr (mColor s)) \<and> \<not> isnan (vg (mColor s)) \<and> \<not> isnan (vb (mColor s)) \<and>
      \<not> isnan (va (mColor s)) \<and> \<not> isnan (mLineWidth s) \<and> \<not> isnan (mAlphaFuncRefValue s))"

definition State_ok :: "State \<Rightarrow> bool" where
  "State_ok s = (State_wf s \<and> State_no_nan s)"

text \<open>
  An instance of the parameters, to run the model on concrete inputs: \<open>white\<close> is
  (1, 1, 1, 1), the enumerators are the OpenGL constants of the same names, and the font
  manager hands out one address per request.
\<close>

definition vl_externs :: Externs where
  "vl_externs =
     \<lparr> white = Vec4 0x3F800000 0x3F800000 0x3F800000 0x3F800000,
       LO_COPY = 0x1503,
       BE_FUNC_ADD = 0x8006,
       BF_SRC_ALPHA = 0x0302,
       BF_ONE_MINUS_SRC_ALPHA = 0x0303,
       FU_ALWAYS = 0x0207,
       SO_KEEP = 0x1E00,
       acquireFont = (\<lambda>name size smooth. 4096 + 2 * length name + (if smooth then 1 else 0)) \<rparr>"

section \<open>The internal class ImageState\<close>

record ImageState =
  is_mImage :: ptr
  is_mTextureMode :: ETextureMode

definition ImageState_less :: "ImageState \<Rightarrow> ImageState \<Rightarrow> bool" where
  "ImageState_less s other =
    (if is_mImage s \<noteq> is_mImage other then is_mImage s < is_mImage other
     else if is_mTextureMode s \<noteq> is_mTextureMode other
       then ETextureMode_val (is_mTextureMode s) < ETextureMode_val (is_mTextureMode other)
     else False)"

section \<open>The members of VectorGraphics\<close>

text \<open>
  \<open>dmat4\<close> is sixteen doubles, each its bit pattern; the context only copies matrices.
  \<open>setIdentity\<close> writes 1.0 on the diagonal and 0.0 elsewhere.
\<close>

type_synonym dmat4 = "64 word list"

definition dmat4_identity :: dmat4 where
  "dmat4_identity =
     [0x3FF0000000000000, 0, 0, 0,
      0, 0x3FF0000000000000, 0, 0,
      0, 0, 0x3FF0000000000000, 0,
      0, 0, 0, 0x3FF0000000000000]"

text \<open>
  Modelled from the spec: \<open>RectI\<close>, an integer rectangle (x, y, width, height); the
  class is declared in a header that is not at hand.
\<close>

record RectI =
  rect_x :: int
  rect_y :: int
  rect_width :: int
  rect_height :: int

text \<open>
  Modelled from the spec: the region a rectangle stands for, as the set of the cells
  \<open>x \<le> px < x + width\<close>, \<open>y \<le> py < y + height\<close>.
\<close>

definition RectI_cells :: "RectI \<Rightarrow> (int \<times> int) set" where
  "RectI_cells r =
     {(px, py). rect_x r \<le> px \<and> px < rect_x r + rect_width r \<and>
                rect_y r \<le> py \<and> py < rect_y r + rect_height r}"

text \<open>
  Modelled from the spec: \<open>RectI::intersected\<close>, the geometric intersection of two
  rectangles (declared in the header that is not at hand).
\<close>

definition intersected :: "RectI \<Rightarrow> RectI \<Rightarrow> RectI" where
  "intersected a b =
     (let x1 = max (rect_x a) (rect_x b);
          y1 = max (rect_y a) (rect_y b);
          x2 = min (rect_x a + rect_width a) (rect_x b + rect_width b);
          y2 = min (rect_y a + rect_height a) (rect_y b + rect_height b)
      in \<lparr> rect_x = x1, rect_y = y1, rect_width = x2 - x1, rect_height = y2 - y1 \<rparr>)"

text \<open>
  Modelled from the spec: the order that keys \<open>std::map<RectI, ...>\<close>, on the integer
  rectangle (x, y, width, height) field by field (declared in the header that is not at
  hand).
\<close>

definition RectI_less :: "RectI \<Rightarrow> RectI \<Rightarrow> bool" where
  "RectI_less a b =
    (if rect_x a \<noteq> rect_x b then rect_x a < rect_x b
     else if rect_y a \<noteq> rect_y b then rect_y a < rect_y b
     else if rect_width a \<noteq> rect_width b then rect_width a < rect_width b
     else if rect_height a \<noteq> rect_height b then rect_height a < rect_height b
     else False)"

text \<open>
  Modelled from the spec: a \<open>Scissor\<close> is the clip-region resource built for a rectangle
  (the class is declared in a header that is not at hand). \<open>scissor_id\<close> tells one
  instance from another.
\<close>

record Scissor =
  scissor_id :: nat
  scissorRect :: RectI

text \<open>
  Modelled from the spec: an \<open>Actor\<close> (the renderable; the class is declared in a header
  that is not at hand) holds a reference to a transform, which \<open>Actor::setTransform\<close>
  replaces, and the style resource it was emitted with.
\<close>

record Actor =
  actor_transform :: ptr
  actor_effect :: nat

text \<open>
  Modelled from the spec: \<open>Actor::setTransform\<close> stores the reference to the transform
  (declared in the header that is not at hand).
\<close>

definition Actor_setTransform :: "ptr \<Rightarrow> Actor \<Rightarrow> Actor" where
  "Actor_setTransform transform a = a\<lparr>actor_transform := transform\<rparr>"

text \<open>
  The data members, in the order of the header. A \<open>std::map\<close> is the list of its
  entries in the order they were inserted; \<open>ref<Scissor>\<close> is \<open>None\<close> when it holds
  \<open>NULL\<close>; \<open>mActors\<close> holds the addresses of the actors, which live outside the object.
\<close>

record VectorGraphics =
  mState :: State
  mMatrix :: dmat4
  mScissor :: "Scissor option"
  mStateStack :: "State list"
  mMatrixStack :: "dmat4 list"
  mScissorStack :: "Scissor option list"
  mVGToEffectMap :: "(State \<times> nat) list"
  mImageToTextureMap :: "(ImageState \<times> nat) list"
  mRectToScissorMap :: "(RectI \<times> Scissor) list"
  mDefaultEffect :: ptr
  mActors :: "ptr list"

text \<open>
  A drawing session is the object together with what lives outside it: the store of the
  actors, and the three resource factories, each with the number of resources it has
  built so far (which also names the next instance).
\<close>

record Session = VectorGraphics +
  actor_store :: "ptr \<Rightarrow> Actor"
  next_actor :: ptr
  effects_built :: nat
  textures_built :: nat
  scissors_built :: nat

datatype error = StackUnderflow

section \<open>The resource caches\<close>

text \<open>
  Lookup in a \<open>std::map\<close> whose comparator is \<open>lt\<close>: the entry whose key is neither
  less nor greater than the key looked up. The container asks for a strict weak ordering,
  and then holds at most one such entry, so that the scan below finds the node the tree
  search finds. \<open>State::operator<\<close> is a strict weak ordering on the states without a
  NaN; with a NaN among the keys the scan stands for the container only while the map
  has at most one entry, where the tree is its root.
\<close>

fun map_find :: "('k \<Rightarrow> 'k \<Rightarrow> bool) \<Rightarrow> ('k \<times> 'v) list \<Rightarrow> 'k \<Rightarrow> 'v option" where
  "map_find lt [] k = None"
| "map_find lt ((k', v) # m) k =
     (if \<not> lt k' k \<and> \<not> lt k k' then Some v else map_find lt m k)"

text \<open>
  Modelled from the spec: the body of \<open>currentEffect(const State&)\<close> is in a source file
  that is not at hand. It looks the state up in \<open>mVGToEffectMap\<close>; on a miss it has the
  factory build a style resource, stores it under the state and returns it; on a hit it
  returns the stored resource and the factory is not invoked.
\<close>

definition currentEffect_of :: "State \<Rightarrow> Session \<Rightarrow> nat \<times> Session" where
  "currentEffect_of vgs w =
     (case map_find State_less (mVGToEffectMap w) vgs of
        Some effect \<Rightarrow> (effect, w)
      | None \<Rightarrow>
          (let effect = effects_built w
           in (effect, w\<lparr> mVGToEffectMap := mVGToEffectMap w @ [(vgs, effect)],
                           effects_built := Suc (effects_built w) \<rparr>)))"

definition currentEffect :: "Session \<Rightarrow> nat \<times> Session" where
  "currentEffect w = currentEffect_of (mState w) w"

text \<open>
  Modelled from the spec: \<open>resolveTexture\<close> (body not at hand), the same protocol on
  the texture cache, keyed by the image binding.
\<close>

definition resolveTexture :: "ptr \<Rightarrow> Session \<Rightarrow> nat \<times> Session" where
  "resolveTexture img w =
     (let key = \<lparr> is_mImage = img, is_mTextureMode = mTextureMode (mState w) \<rparr>
      in case map_find ImageState_less (mImageToTextureMap w) key of
           Some texture \<Rightarrow> (texture, w)
         | None \<Rightarrow>
             (let texture = textures_built w
              in (texture, w\<lparr> mImageToTextureMap := mImageToTextureMap w @ [(key, texture)],
                               textures_built := Suc (textures_built w) \<rparr>)))"

text \<open>
  Modelled from the spec: \<open>resolveScissor\<close> (body not at hand), the same protocol on
  the clip-region cache, keyed by the rectangle.
\<close>

definition resolveScissor :: "int \<Rightarrow> int \<Rightarrow> int \<Rightarrow> int \<Rightarrow> Session \<Rightarrow> Scissor \<times> Session" where
  "resolveScissor x y width height w =
     (let key = \<lparr> rect_x = x, rect_y = y, rect_width = width, rect_height = height \<rparr>
      in case map_find RectI_less (mRectToScissorMap w) key of
           Some scissor \<Rightarrow> (scissor, w)
         | None \<Rightarrow>
             (let scissor = \<lparr> scissor_id = scissors_built w, scissorRect = key \<rparr>
              in (scissor, w\<lparr> mRectToScissorMap := mRectToScissorMap w @ [(key, scissor)],
                               scissors_built := Suc (scissors_built w) \<rparr>)))"

section \<open>Attribute setters and matrix changes\<close>

text \<open>
  The setters with a body in the header. Each one is typed on the object alone and
  leaves whatever surrounds it unchanged.
\<close>

definition setColor :: "fvec4 \<Rightarrow> 'a VectorGraphics_scheme \<Rightarrow> 'a VectorGraphics_scheme" where
  "setColor color w = w\<lparr>mState := (mState w)\<lparr>mColor := color\<rparr>\<rparr>"

definition setPointSize :: "int \<Rightarrow> 'a VectorGraphics_scheme \<Rightarrow> 'a VectorGraphics_scheme" where
  "setPointSize sz w = w\<lparr>mState := (mState w)\<lparr>mPointSize := sz\<rparr>\<rparr>"

definition setImage :: "ptr \<Rightarrow> 'a VectorGraphics_scheme \<Rightarrow> 'a VectorGraphics_scheme" where
  "setImage img w = w\<lparr>mState := (mState w)\<lparr>mImage := img\<rparr>\<rparr>"

text \<open>\<open>setPoint(image)\<close>; \<open>img_width\<close> is what \<open>image->width()\<close> returns.\<close>

definition setPoint :: "ptr \<Rightarrow> int \<Rightarrow> 'a VectorGraphics_scheme \<Rightarrow> 'a VectorGraphics_scheme" where
  "setPoint img img_width w = setPointSize img_width (setImage img w)"

definition setTextureMode :: "ETextureMode \<Rightarrow> 'a VectorGraphics_scheme \<Rightarrow> 'a VectorGraphics_scheme" where
  "setTextureMode mode w = w\<lparr>mState := (mState w)\<lparr>mTextureMode := mode\<rparr>\<rparr>"

definition setLogicOp :: "ELogicOp \<Rightarrow> 'a VectorGraphics_scheme \<Rightarrow> 'a VectorGraphics_scheme" where
  "setLogicOp op w = w\<lparr>mState := (mState w)\<lparr>mLogicOp := op\<rparr>\<rparr>"

definition setLineWidth :: "float \<Rightarrow> 'a VectorGraphics_scheme \<Rightarrow> 'a VectorGraphics_scheme" where
  "setLineWidth width w = w\<lparr>mState := (mState w)\<lparr>mLineWidth := width\<rparr>\<rparr>"

definition setPointSmoothing :: "bool \<Rightarrow> 'a VectorGraphics_scheme \<Rightarrow> 'a VectorGraphics_scheme" where
  "setPointSmoothing smooth w = w\<lparr>mState := (mState w)\<lparr>mPointSmoothing := smooth\<rparr>\<rparr>"

definition setLineSmoothing :: "bool \<Rightarrow> 'a VectorGraphics_scheme \<Rightarrow> 'a VectorGraphics_scheme" where
  "setLineSmoothing smooth w = w\<lparr>mState := (mState w)\<lparr>mLineSmoothing := smooth\<rparr>\<rparr>"

definition setPolygonSmoothing :: "bool \<Rightarrow> 'a VectorGraphics_scheme \<Rightarrow> 'a VectorGraphics_scheme" where
  "setPolygonSmoothing smooth w = w\<lparr>mState := (mState w)\<lparr>mPolygonSmoothing := smooth\<rparr>\<rparr>"

definition setLineStipple :: "16 word \<Rightarrow> 'a VectorGraphics_scheme \<Rightarrow> 'a VectorGraphics_scheme" where
  "setLineStipple stipple w = w\<lparr>mState := (mState w)\<lparr>mLineStipple := stipple\<rparr>\<rparr>"

text \<open>
  \<open>memcpy(dst, src, n)\<close>; the caller's buffer \<open>src\<close> has at least \<open>n\<close> bytes (anything
  shorter is read out of bounds by the C++).
\<close>

definition memcpy :: "8 word list \<Rightarrow> 8 word list \<Rightarrow> nat \<Rightarrow> 8 word list" where
  "memcpy dst src n = take n src @ drop n dst"

definition setPolygonStipple :: "8 word list \<Rightarrow> 'a VectorGraphics_scheme \<Rightarrow> 'a VectorGraphics_scheme" where
  "setPolygonStipple stipple w =
     w\<lparr>mState := (mState w)\<lparr>mPolyStipple := memcpy (mPolyStipple (mState w)) stipple (32 * 32 div 8)\<rparr>\<rparr>"

definition setAlphaFunc :: "EFunction \<Rightarrow> float \<Rightarrow> 'a VectorGraphics_scheme \<Rightarrow> 'a VectorGraphics_scheme" where
  "setAlphaFunc func ref_value w =
     w\<lparr>mState := (mState w)\<lparr>mAlphaFuncRefValue := ref_value, mAlphaFunc := func\<rparr>\<rparr>"

definition setColorMask :: "bool \<Rightarrow> bool \<Rightarrow> bool \<Rightarrow> bool \<Rightarrow> 'a VectorGraphics_scheme \<Rightarrow> 'a VectorGraphics_scheme" where
  "setColorMask r g b a w =
     w\<lparr>mState := (mState w)\<lparr>mColorMask :=
         Vec4 (if r then 1 else 0) (if g then 1 else 0) (if b then 1 else 0) (if a then 1 else 0)\<rparr>\<rparr>"

definition setStencilTestEnabled :: "bool \<Rightarrow> 'a VectorGraphics_scheme \<Rightarrow> 'a VectorGraphics_scheme" where
  "setStencilTestEnabled enabled w = w\<lparr>mState := (mState w)\<lparr>mStencilTestEnabled := enabled\<rparr>\<rparr>"

definition setStencilMask :: "32 word \<Rightarrow> 'a VectorGraphics_scheme \<Rightarrow> 'a VectorGraphics_scheme" where
  "setStencilMask msk w = w\<lparr>mState := (mState w)\<lparr>mStencilMask := msk\<rparr>\<rparr>"

definition setFont :: "Externs \<Rightarrow> string \<Rightarrow> int \<Rightarrow> bool \<Rightarrow> 'a VectorGraphics_scheme \<Rightarrow> 'a VectorGraphics_scheme" where
  "setFont ext name sz smooth w = w\<lparr>mState := (mState w)\<lparr>mFont := acquireFont ext name sz smooth\<rparr>\<rparr>"

definition setMatrix :: "dmat4 \<Rightarrow> 'a VectorGraphics_scheme \<Rightarrow> 'a VectorGraphics_scheme" where
  "setMatrix m w = w\<lparr>mMatrix := m\<rparr>"

definition resetMatrix :: "'a VectorGraphics_scheme \<Rightarrow> 'a VectorGraphics_scheme" where
  "resetMatrix w = w\<lparr>mMatrix := dmat4_identity\<rparr>"

text \<open>
  Modelled from the spec: \<open>setBlendFunc\<close> (its body is in a source file that is not at
  hand) writes the four blend factors and nothing else.
\<close>

definition setBlendFunc ::
  "EBlendFactor \<Rightarrow> EBlendFactor \<Rightarrow> EBlendFactor \<Rightarrow> EBlendFactor \<Rightarrow>
   'a VectorGraphics_scheme \<Rightarrow> 'a VectorGraphics_scheme" where
  "setBlendFunc src_rgb dst_rgb src_alpha dst_alpha w =
     w\<lparr>mState := (mState w)\<lparr>mBlendFactorSrcRGB := src_rgb, mBlendFactorDstRGB := dst_rgb,
                             mBlendFactorSrcAlpha := src_alpha, mBlendFactorDstAlpha := dst_alpha\<rparr>\<rparr>"

text \<open>
  Modelled from the spec: \<open>setBlendEquation\<close> (body not at hand) writes the two blend
  equations and nothing else.
\<close>

definition setBlendEquation ::
  "EBlendEquation \<Rightarrow> EBlendEquation \<Rightarrow> 'a VectorGraphics_scheme \<Rightarrow> 'a VectorGraphics_scheme" where
  "setBlendEquation rgb_eq alpha_eq w =
     w\<lparr>mState := (mState w)\<lparr>mBlendEquationRGB := rgb_eq, mBlendEquationAlpha := alpha_eq\<rparr>\<rparr>"

text \<open>
  Modelled from the spec: \<open>setStencilOp\<close> (body not at hand) writes the three stencil
  operations and nothing else.
\<close>

definition setStencilOp ::
  "EStencilOp \<Rightarrow> EStencilOp \<Rightarrow> EStencilOp \<Rightarrow> 'a VectorGraphics_scheme \<Rightarrow> 'a VectorGraphics_scheme" where
  "setStencilOp sfail dpfail dppass w =
     w\<lparr>mState := (mState w)\<lparr>mStencil_SFail := sfail, mStencil_DpFail := dpfail,
                             mStencil_DpPass := dppass\<rparr>\<rparr>"

text \<open>
  Modelled from the spec: \<open>setStencilFunc\<close> (body not at hand) writes the stencil
  function, its reference value and its mask, and nothing else.
\<close>

definition setStencilFunc ::
  "EFunction \<Rightarrow> int \<Rightarrow> 32 word \<Rightarrow> 'a VectorGraphics_scheme \<Rightarrow> 'a VectorGraphics_scheme" where
  "setStencilFunc func refval msk w =
     w\<lparr>mState := (mState w)\<lparr>mStencil_Function := func, mStencil_RefValue := refval,
                             mStencil_FunctionMask := msk\<rparr>\<rparr>"

text \<open>
  Modelled from the spec: \<open>rotate\<close>, \<open>translate\<close> and \<open>scale\<close> (bodies not at hand)
  replace the current matrix by one computed from it, \<open>f\<close> being that computation.
\<close>

definition transformMatrix :: "(dmat4 \<Rightarrow> dmat4) \<Rightarrow> 'a VectorGraphics_scheme \<Rightarrow> 'a VectorGraphics_scheme" where
  "transformMatrix f w = w\<lparr>mMatrix := f (mMatrix w)\<rparr>"

text \<open>One call of an attribute setter or of a function that changes the matrix.\<close>

datatype Mutation =
    SetColor fvec4
  | SetPointSize int
  | SetImage ptr
  | SetPoint ptr int
  | SetTextureMode ETextureMode
  | SetLogicOp ELogicOp
  | SetLineWidth float
  | SetPointSmoothing bool
  | SetLineSmoothing bool
  | SetPolygonSmoothing bool
  | SetLineStipple "16 word"
  | SetPolygonStipple "8 word list"
  | SetAlphaFunc EFunction float
  | SetBlendFunc EBlendFactor EBlendFactor EBlendFactor EBlendFactor
  | SetBlendEquation EBlendEquation EBlendEquation
  | SetColorMask bool bool bool bool
  | SetStencilTestEnabled bool
  | SetStencilMask "32 word"
  | SetStencilOp EStencilOp EStencilOp EStencilOp
  | SetStencilFunc EFunction int "32 word"
  | SetFont string int bool
  | SetMatrix dmat4
  | ResetMatrix
  | TransformMatrix "dmat4 \<Rightarrow> dmat4"

fun mutate :: "Externs \<Rightarrow> Mutation \<Rightarrow> 'a VectorGraphics_scheme \<Rightarrow> 'a VectorGraphics_scheme" where
  "mutate ext (SetColor c) w = setColor c w"
| "mutate ext (SetPointSize n) w = setPointSize n w"
| "mutate ext (SetImage p) w = setImage p w"
| "mutate ext (SetPoint p n) w = setPoint p n w"
| "mutate ext (SetTextureMode m) w = setTextureMode m w"
| "mutate ext (SetLogicOp op) w = setLogicOp op w"
| "mutate ext (SetLineWidth x) w = setLineWidth x w"
| "mutate ext (SetPointSmoothing b) w = setPointSmoothing b w"
| "mutate ext (SetLineSmoothing b) w = setLineSmoothing b w"
| "mutate ext (SetPolygonSmoothing b) w = setPolygonSmoothing b w"
| "mutate ext (SetLineStipple x) w = setLineStipple x w"
| "mutate ext (SetPolygonStipple xs) w = setPolygonStipple xs w"
| "mutate ext (SetAlphaFunc f x) w = setAlphaFunc f x w"
| "mutate ext (SetBlendFunc a b c d) w = setBlendFunc a b c d w"
| "mutate ext (SetBlendEquation a b) w = setBlendEquation a b w"
| "mutate ext (SetColorMask r g b a) w = setColorMask r g b a w"
| "mutate ext (SetStencilTestEnabled b) w = setStencilTestEnabled b w"
| "mutate ext (SetStencilMask m) w = setStencilMask m w"
| "mutate ext (SetStencilOp a b c) w = setStencilOp a b c w"
| "mutate ext (SetStencilFunc f r m) w = setStencilFunc f r m w"
| "mutate ext (SetFont name n smooth) w = setFont ext name n smooth w"
| "mutate ext (SetMatrix m) w = setMatrix m w"
| "mutate ext ResetMatrix w = resetMatrix w"
| "mutate ext (TransformMatrix f) w = transformMatrix f w"


section \<open>The stacks\<close>

text \<open>
  A \<open>std::vector\<close> used as a stack: \<open>push_back\<close> appends, \<open>back\<close> is the last
  element, \<open>pop_back\<close> drops it.
\<close>

definition pushMatrix :: "'a VectorGraphics_scheme \<Rightarrow> 'a VectorGraphics_scheme" where
  "pushMatrix w = w\<lparr>mMatrixStack := mMatrixStack w @ [mMatrix w]\<rparr>"

text \<open>
  Modelled from the spec: \<open>popMatrix\<close> (its body is in a source file that is not at
  hand) removes the top entry of the matrix stack and installs it as the current matrix;
  on an empty stack it is an error, not a silent no-op.
\<close>

definition popMatrix :: "'a VectorGraphics_scheme \<Rightarrow> error + 'a VectorGraphics_scheme" where
  "popMatrix w =
     (if mMatrixStack w = [] then Inl StackUnderflow
      else Inr (w\<lparr>mMatrix := last (mMatrixStack w), mMatrixStack := butlast (mMatrixStack w)\<rparr>))"

text \<open>
  Modelled from the spec: \<open>pushState\<close> (body not at hand) appends copies of the current
  matrix and of the current state as one unit.
\<close>

definition pushState :: "'a VectorGraphics_scheme \<Rightarrow> 'a VectorGraphics_scheme" where
  "pushState w =
     w\<lparr>mMatrixStack := mMatrixStack w @ [mMatrix w], mStateStack := mStateStack w @ [mState w]\<rparr>"

text \<open>
  Modelled from the spec: \<open>popState\<close> (body not at hand) restores matrix and state
  together from the top entries; on an empty stack it is an error.
\<close>

definition popState :: "'a VectorGraphics_scheme \<Rightarrow> error + 'a VectorGraphics_scheme" where
  "popState w =
     (if mStateStack w = [] \<or> mMatrixStack w = [] then Inl StackUnderflow
      else Inr (w\<lparr>mMatrix := last (mMatrixStack w), mMatrixStack := butlast (mMatrixStack w),
                  mState := last (mStateStack w), mStateStack := butlast (mStateStack w)\<rparr>))"

text \<open>\<open>setScissor\<close> and \<open>removeScissor\<close>, as the header has them.\<close>

definition setScissor :: "int \<Rightarrow> int \<Rightarrow> int \<Rightarrow> int \<Rightarrow> Session \<Rightarrow> Session" where
  "setScissor x y width height w =
     (case resolveScissor x y width height w of (scissor, w') \<Rightarrow> w'\<lparr>mScissor := Some scissor\<rparr>)"

definition removeScissor :: "'a VectorGraphics_scheme \<Rightarrow> 'a VectorGraphics_scheme" where
  "removeScissor w = w\<lparr>mScissor := None\<rparr>"

text \<open>
  Modelled from the spec: \<open>pushScissor\<close> (body not at hand) intersects the rectangle
  with the active clip region (or takes it alone when none is active), resolves the
  result through the clip-region cache, pushes the previously active region and installs
  the new one.
\<close>

definition pushScissor :: "int \<Rightarrow> int \<Rightarrow> int \<Rightarrow> int \<Rightarrow> Session \<Rightarrow> Session" where
  "pushScissor x y width height w =
     (let rect = \<lparr> rect_x = x, rect_y = y, rect_width = width, rect_height = height \<rparr>;
          newscissor = (case mScissor w of
                          None \<Rightarrow> rect
                        | Some active \<Rightarrow> intersected rect (scissorRect active))
      in case resolveScissor (rect_x newscissor) (rect_y newscissor)
                (rect_width newscissor) (rect_height newscissor) w of
           (scissor, w') \<Rightarrow>
             w'\<lparr>mScissorStack := mScissorStack w' @ [mScissor w], mScissor := Some scissor\<rparr>)"

text \<open>
  Modelled from the spec: \<open>popScissor\<close> (body not at hand) restores the previously active
  region, which may be none; on an empty stack it is an error.
\<close>

definition popScissor :: "'a VectorGraphics_scheme \<Rightarrow> error + 'a VectorGraphics_scheme" where
  "popScissor w =
     (if mScissorStack w = [] then Inl StackUnderflow
      else Inr (w\<lparr>mScissor := last (mScissorStack w), mScissorStack := butlast (mScissorStack w)\<rparr>))"

section \<open>Session lifecycle\<close>

text \<open>
  Modelled from the spec: \<open>clear\<close> (its body is in a source file that is not at hand)
  empties the output collection and resets all transient state: state, matrix, clip
  region and the three stacks. The caches stay, since \<open>endDrawing(false)\<close> is to keep
  them warm for the next session. \<open>junk\<close> is passed on to the constructor of \<open>State\<close>.
\<close>

definition clear :: "Externs \<Rightarrow> EStencilOp \<Rightarrow> 'a VectorGraphics_scheme \<Rightarrow> 'a VectorGraphics_scheme" where
  "clear ext junk w =
     w\<lparr> mActors := [],
        mState := State_ctor ext junk,
        mMatrix := dmat4_identity,
        mScissor := None,
        mStateStack := [],
        mMatrixStack := [],
        mScissorStack := [] \<rparr>"

text \<open>\<open>startDrawing() { clear(); }\<close>, as the header has it.\<close>

definition startDrawing :: "Externs \<Rightarrow> EStencilOp \<Rightarrow> 'a VectorGraphics_scheme \<Rightarrow> 'a VectorGraphics_scheme" where
  "startDrawing ext junk w = clear ext junk w"

text \<open>
  Modelled from the spec: \<open>continueDrawing\<close> (body not at hand) resets state, matrix and
  stacks and keeps the output and the caches.
\<close>

definition continueDrawing :: "Externs \<Rightarrow> EStencilOp \<Rightarrow> 'a VectorGraphics_scheme \<Rightarrow> 'a VectorGraphics_scheme" where
  "continueDrawing ext junk w =
     w\<lparr> mState := State_ctor ext junk,
        mMatrix := dmat4_identity,
        mStateStack := [],
        mMatrixStack := [],
        mScissorStack := [] \<rparr>"

text \<open>
  Modelled from the spec: \<open>endDrawing\<close> (body not at hand) discards the three caches
  when \<open>release_cache\<close> is set and keeps them otherwise.
\<close>

definition endDrawing :: "bool \<Rightarrow> 'a VectorGraphics_scheme \<Rightarrow> 'a VectorGraphics_scheme" where
  "endDrawing release_cache w =
     (if release_cache
      then w\<lparr>mVGToEffectMap := [], mImageToTextureMap := [], mRectToScissorMap := []\<rparr>
      else w)"

text \<open>
  Modelled from the spec: the constructor of \<open>VectorGraphics\<close> (body not at hand) leaves
  the default state, the identity matrix, no clip region, empty stacks, empty caches and
  an empty output collection; nothing has been built or emitted yet.
\<close>

definition VectorGraphics_ctor :: "Externs \<Rightarrow> EStencilOp \<Rightarrow> Session" where
  "VectorGraphics_ctor ext junk =
     \<lparr> mState = State_ctor ext junk,
       mMatrix = dmat4_identity,
       mScissor = None,
       mStateStack = [],
       mMatrixStack = [],
       mScissorStack = [],
       mVGToEffectMap = [],
       mImageToTextureMap = [],
       mRectToScissorMap = [],
       mDefaultEffect = NULL,
       mActors = [],
       actor_store = (\<lambda>p. \<lparr> actor_transform = NULL, actor_effect = 0 \<rparr>),
       next_actor = 1,
       effects_built = 0,
       textures_built = 0,
       scissors_built = 0 \<rparr>"

section \<open>Emitting and rebinding actors\<close>

text \<open>
  \<open>setTransform\<close>: the loop \<open>for (int i = 0; i < actors()->size(); ++i)\<close>, which calls
  \<open>setTransform\<close> on the actor that the i-th entry of the collection refers to.
\<close>

function setTransform_loop :: "ptr \<Rightarrow> ptr list \<Rightarrow> nat \<Rightarrow> (ptr \<Rightarrow> Actor) \<Rightarrow> (ptr \<Rightarrow> Actor)" where
  "setTransform_loop transform actors i store =
     (if i < length actors
      then setTransform_loop transform actors (i + 1)
             (store(actors ! i := Actor_setTransform transform (store (actors ! i))))
      else store)"
  by pat_completeness auto
termination
  by (relation "measure (\<lambda>(transform, actors, i, store). length actors - i)") auto

definition setTransform :: "ptr \<Rightarrow> Session \<Rightarrow> Session" where
  "setTransform transform w =
     w\<lparr>actor_store := setTransform_loop transform (mActors w) 0 (actor_store w)\<rparr>"

text \<open>
  Modelled from the spec: a draw or fill call (the bodies are in a source file that is
  not at hand; building the geometry is left out). It resolves the current state into a
  style resource, resolves the image binding into a texture resource when an image is
  bound, constructs an actor bound to the style resource and appends it to the output
  collection.
\<close>

definition draw :: "Session \<Rightarrow> ptr \<times> Session" where
  "draw w =
     (case currentEffect w of
        (effect, w1) \<Rightarrow>
          (let w2 = (if mImage (mState w1) \<noteq> NULL
                     then snd (resolveTexture (mImage (mState w1)) w1) else w1);
               actor = next_actor w2
           in (actor,
               w2\<lparr> mActors := mActors w2 @ [actor],
                    actor_store := (actor_store w2)
                      (actor := \<lparr> actor_transform = NULL, actor_effect = effect \<rparr>),
                    next_actor := Suc actor \<rparr>)))"

text \<open>A run of draw calls, the i-th one made while the live state is the i-th of the list.\<close>

fun draw_calls :: "State list \<Rightarrow> Session \<Rightarrow> Session" where
  "draw_calls [] w = w"
| "draw_calls (s # ss) w = draw_calls ss (snd (draw (w\<lparr>mState := s\<rparr>)))"

text \<open>A run of resolves of the style-resource cache, one key after the other.\<close>

fun resolve_all :: "State list \<Rightarrow> Session \<Rightarrow> Session" where
  "resolve_all [] w = w"
| "resolve_all (k # ks) w = resolve_all ks (snd (currentEffect_of k w))"

section \<open>The public operations as a transition system\<close>

datatype Op =
    Mutate Mutation
  | PushMatrix
  | PopMatrix
  | PushState
  | PopState
  | SetScissor int int int int
  | RemoveScissor
  | PushScissor int int int int
  | PopScissor
  | StartDrawing EStencilOp
  | ContinueDrawing EStencilOp
  | EndDrawing bool
  | Clear EStencilOp
  | SetTransform ptr
  | CurrentEffect
  | Draw

fun step :: "Externs \<Rightarrow> Op \<Rightarrow> Session \<Rightarrow> error + Session" where
  "step ext (Mutate m) w = Inr (mutate ext m w)"
| "step ext PushMatrix w = Inr (pushMatrix w)"
| "step ext PopMatrix w = popMatrix w"
| "step ext PushState w = Inr (pushState w)"
| "step ext PopState w = popState w"
| "step ext (SetScissor x y width height) w = Inr (setScissor x y width height w)"
| "step ext RemoveScissor w = Inr (removeScissor w)"
| "step ext (PushScissor x y width height) w = Inr (pushScissor x y width height w)"
| "step ext PopScissor w = popScissor w"
| "step ext (StartDrawing junk) w = Inr (startDrawing ext junk w)"
| "step ext (ContinueDrawing junk) w = Inr (continueDrawing ext junk w)"
| "step ext (EndDrawing release_cache) w = Inr (endDrawing release_cache w)"
| "step ext (Clear junk) w = Inr (clear ext junk w)"
| "step ext (SetTransform transform) w = Inr (setTransform transform w)"
| "step ext CurrentEffect w = Inr (snd (currentEffect w))"
| "step ext Draw w = Inr (snd (draw w))"

text \<open>
  The sessions that a constructed object reaches by public operations; a call that
  signals an error leaves no successor.
\<close>

inductive reachable :: "Externs \<Rightarrow> Session \<Rightarrow> bool" for ext :: Externs where
  reachable_ctor: "reachable ext (VectorGraphics_ctor ext junk)"
| reachable_step: "reachable ext w \<Longrightarrow> step ext op w = Inr w' \<Longrightarrow> reachable ext w'"

definition mask01 :: "ivec4 \<Rightarrow> bool" where
  "mask01 m = ((vr m = 0 \<or> vr m = 1) \<and> (vg m = 0 \<or> vg m = 1) \<and>
               (vb m = 0 \<or> vb m = 1) \<and> (va m = 0 \<or> va m = 1))"

text \<open>The invariant of the colour mask: the live state and every saved state hold 0 or 1.\<close>

definition mask_inv :: "'a VectorGraphics_scheme \<Rightarrow> bool" where
  "mask_inv w =
     (mask01 (mColorMask (mState w)) \<and> list_all (\<lambda>s. mask01 (mColorMask s)) (mStateStack w))"

text \<open>
  The values a run of draw calls uses, told apart as the order tells states apart (two
  states are equal when neither is less than the other): \<open>ds\<close> lists each value once.
\<close>

fun pairwise_differ :: "State list \<Rightarrow> bool" where
  "pairwise_differ [] = True"
| "pairwise_differ (d # ds) = ((\<forall>e \<in> set ds. \<not> State_equiv d e) \<and> pairwise_differ ds)"

definition distinct_values :: "State list \<Rightarrow> State list \<Rightarrow> bool" where
  "distinct_values ds ss =
     (set ds \<subseteq> set ss \<and> pairwise_differ ds \<and>
      (\<forall>s \<in> set ss. \<exists>d \<in> set ds. State_equiv s d))"

definition cache_keys :: "'a VectorGraphics_scheme \<Rightarrow> State list" where
  "cache_keys w = map fst (mVGToEffectMap w)"

text \<open>Every clip-region resource in the cache was built for the rectangle it is stored under.\<close>

definition scissor_cache_ok :: "'a VectorGraphics_scheme \<Rightarrow> bool" where
  "scissor_cache_ok w = list_all (\<lambda>e. scissorRect (snd e) = fst e) (mRectToScissorMap w)"

text \<open>\<open>pushScissor\<close> called with the four numbers of a rectangle.\<close>

definition pushScissorR :: "RectI \<Rightarrow> Session \<Rightarrow> Session" where
  "pushScissorR r w = pushScissor (rect_x r) (rect_y r) (rect_width r) (rect_height r) w"

text \<open>
  Concrete inputs: the default state, the default state with a NaN as the red component
  of its colour, and a freshly constructed object.
\<close>

definition default_State :: State where
  "default_State = State_ctor vl_externs 0x1E00"

definition nan_State :: State where
  "nan_State = default_State\<lparr>mColor := Vec4 0x7FC00000 0 0 0\<rparr>"

definition fresh_session :: Session where
  "fresh_session = VectorGraphics_ctor vl_externs 0x1E00"

section \<open>The order on State\<close>

lemma lex_less_trichotomy:
  "list_all2 mirrored P Q \<Longrightarrow>
   (\<not> lex_less P \<and> \<not> lex_less Q) = list_all (\<lambda>p. \<not> fst p) P"
  by (induction rule: list_all2_induct) (auto simp: mirrored_def)

lemma mirrored_linorder: "mirrored (x \<noteq> y, x < y) (y \<noteq> x, y < (x::'a::linorder))"
  by (auto simp: mirrored_def)

lemma memcmp_flip: "memcmp ys xs n = - memcmp xs ys n"
  by (induction xs ys n rule: memcmp.induct) auto

lemma memcmp_zero:
  "length xs = n \<Longrightarrow> length ys = n \<Longrightarrow> (memcmp xs ys n = 0) = (xs = ys)"
  by (induction xs ys n rule: memcmp.induct) (auto simp: word_uint_eq_iff)

lemma State_less_lex: "State_less s other = lex_less (State_cmps s other)"
  unfolding State_less_def State_cmps_def lex_less.simps by (rule refl)

lemma mirrored_float:
  "\<not> isnan x \<Longrightarrow> \<not> isnan y \<Longrightarrow>
   mirrored (float_ne x y, float_lt x y) (float_ne y x, float_lt y x)"
  by (auto simp: mirrored_def float_ne_def float_lt_def)

lemma mirrored_ETextureMode:
  "mirrored (x \<noteq> y, ETextureMode_val x < ETextureMode_val y)
            (y \<noteq> x, ETextureMode_val y < ETextureMode_val x)"
  by (cases x; cases y) (auto simp: mirrored_def)

lemma mirrored_memcmp:
  "mirrored (memcmp xs ys n \<noteq> 0, memcmp xs ys n < 0) (memcmp ys xs n \<noteq> 0, memcmp ys xs n < 0)"
  using memcmp_flip [of ys xs n] by (auto simp: mirrored_def)

lemma State_cmps_mirrored:
  assumes "State_no_nan a" "State_no_nan b"
  shows "list_all2 mirrored (State_cmps a b) (State_cmps b a)"
  using assms unfolding State_cmps_def State_no_nan_def list_all2_Cons
  by (intro conjI mirrored_linorder mirrored_float mirrored_ETextureMode mirrored_memcmp
        list_all2_Nil [THEN iffD2])
     simp_all

lemma State_cmps_all_eq:
  assumes "State_wf a" "State_wf b"
  shows "list_all (\<lambda>p. \<not> fst p) (State_cmps a b) = State_fields_equal a b"
proof -
  have m: "(memcmp (mPolyStipple a) (mPolyStipple b) (32 * 32 div 8) = 0)
             = (mPolyStipple a = mPolyStipple b)"
    using assms by (intro memcmp_zero) (simp_all add: State_wf_def)
  show ?thesis
    unfolding State_cmps_def State_fields_equal_def list.pred_inject fst_conv not_not m float_eq_def
    by (simp only: list.pred_inject simp_thms)
qed

lemma State_equiv_fields:
  assumes "State_ok a" "State_ok b"
  shows "State_equiv a b = State_fields_equal a b"
  unfolding State_equiv_def State_less_lex
  using assms lex_less_trichotomy [OF State_cmps_mirrored [of a b]] State_cmps_all_eq [of a b]
  by (simp add: State_ok_def)

lemma float_vals [simp]:
  "isnan 0x7FC00000" "\<not> isnan 0x3F800000" "\<not> isnan 0" "\<not> isnan 0x80000000"
  "float_rank 0 = 0" "float_rank 0x80000000 = 0" "float_rank 0x3F800000 = 0x3F800000"
  by (simp_all add: isnan_def float_rank_def)

lemma State_ctor_ok: "State_ok (State_ctor vl_externs junk)"
  by (simp add: State_ok_def State_wf_def State_no_nan_def State_ctor_def vl_externs_def)

text \<open>
  C2, as the code has it. For two states with \<open>32*32/8\<close> stipple bytes each and no NaN
  in a float member (colour, line width, alpha reference): neither state is less than
  the other under \<open>operator<\<close> if and only if every compared field is equal in both.
\<close>

theorem State_equiv_iff_fields_equal:
  assumes "State_ok a" and "State_ok b"
  shows "(\<not> State_less a b \<and> \<not> State_less b a) = State_fields_equal a b"
  using State_equiv_fields [OF assms] by (simp add: State_equiv_def)

text \<open>
  The default state and the one that differs from it by the sign of the zero in the
  alpha reference: both are ordinary, neither is less, and every field compares equal.
\<close>

theorem State_equiv_iff_fields_equal_witness:
  "State_ok (State_ctor vl_externs 0x1E00) \<and>
   State_ok ((State_ctor vl_externs 0x1E00)\<lparr>mAlphaFuncRefValue := 0x80000000\<rparr>) \<and>
   \<not> State_less (State_ctor vl_externs 0x1E00)
       ((State_ctor vl_externs 0x1E00)\<lparr>mAlphaFuncRefValue := 0x80000000\<rparr>) \<and>
   \<not> State_less ((State_ctor vl_externs 0x1E00)\<lparr>mAlphaFuncRefValue := 0x80000000\<rparr>)
       (State_ctor vl_externs 0x1E00) \<and>
   State_fields_equal (State_ctor vl_externs 0x1E00)
       ((State_ctor vl_externs 0x1E00)\<lparr>mAlphaFuncRefValue := 0x80000000\<rparr>)"
proof -
  let ?a = "State_ctor vl_externs 0x1E00"
  let ?b = "?a\<lparr>mAlphaFuncRefValue := 0x80000000\<rparr>"
  have a: "State_ok ?a" by (rule State_ctor_ok)
  have b: "State_ok ?b"
    by (simp add: State_ok_def State_wf_def State_no_nan_def State_ctor_def vl_externs_def)
  have e: "State_fields_equal ?a ?b"
    by (simp add: State_fields_equal_def State_ctor_def float_eq_def float_ne_def vl_externs_def)
  from State_equiv_iff_fields_equal [OF a b] a b e show ?thesis by simp
qed

text \<open>
  C2 as stated fails where a float member holds a NaN: a state whose red component is
  a NaN is neither less nor greater than the default state with point size 7, whatever
  its other fields are; here the point sizes are 5 and 7.
\<close>

theorem State_equiv_nan_counterexample:
  "\<not> State_less ((State_ctor vl_externs 0x1E00)\<lparr>mColor := Vec4 0x7FC00000 0 0 0\<rparr>)
       ((State_ctor vl_externs 0x1E00)\<lparr>mPointSize := 7\<rparr>) \<and>
   \<not> State_less ((State_ctor vl_externs 0x1E00)\<lparr>mPointSize := 7\<rparr>)
       ((State_ctor vl_externs 0x1E00)\<lparr>mColor := Vec4 0x7FC00000 0 0 0\<rparr>) \<and>
   mPointSize ((State_ctor vl_externs 0x1E00)\<lparr>mColor := Vec4 0x7FC00000 0 0 0\<rparr>) = 5 \<and>
   mPointSize ((State_ctor vl_externs 0x1E00)\<lparr>mPointSize := 7\<rparr>) = 7 \<and>
   \<not> State_fields_equal ((State_ctor vl_externs 0x1E00)\<lparr>mColor := Vec4 0x7FC00000 0 0 0\<rparr>)
       ((State_ctor vl_externs 0x1E00)\<lparr>mPointSize := 7\<rparr>)"
  by (simp add: State_less_def State_fields_equal_def State_ctor_def float_ne_def float_lt_def)

section \<open>The default state\<close>

lemma State_ctor_DpPass: "mStencil_DpPass (State_ctor ext junk) = junk"
  by (simp add: State_ctor_def)

lemma State_ctor_baseline:
  "mColor (State_ctor ext junk) = white ext"
  "mPointSize (State_ctor ext junk) = 5"
  "mLineStipple (State_ctor ext junk) = 0xFFFF"
  "length (mPolyStipple (State_ctor ext junk)) = 128"
  "list_all (\<lambda>b. b = 0xFF) (mPolyStipple (State_ctor ext junk))"
  "mBlendFactorSrcRGB (State_ctor ext junk) = BF_SRC_ALPHA ext"
  "mBlendFactorDstRGB (State_ctor ext junk) = BF_ONE_MINUS_SRC_ALPHA ext"
  "mBlendFactorSrcAlpha (State_ctor ext junk) = BF_SRC_ALPHA ext"
  "mBlendFactorDstAlpha (State_ctor ext junk) = BF_ONE_MINUS_SRC_ALPHA ext"
  "mBlendEquationRGB (State_ctor ext junk) = BE_FUNC_ADD ext"
  "mBlendEquationAlpha (State_ctor ext junk) = BE_FUNC_ADD ext"
  "mStencilTestEnabled (State_ctor ext junk) = False"
  "mStencil_FunctionMask (State_ctor ext junk) = 0xFFFFFFFF"
  "mStencil_SFail (State_ctor ext junk) = SO_KEEP ext"
  "mStencil_DpFail (State_ctor ext junk) = SO_KEEP ext"
  by (simp_all add: State_ctor_def list_all_length)

text \<open>
  C6 at the failing input: the constructor run on storage whose \<open>mStencil_DpPass\<close> holds
  0x1E01. The member still holds 0x1E01 afterwards, which is not \<open>SO_KEEP\<close>, while the
  two stencil operations that the constructor does assign are \<open>SO_KEEP\<close>.
\<close>

theorem State_ctor_DpPass_unassigned:
  "mStencil_DpPass (State_ctor vl_externs 0x1E01) = 0x1E01 \<and> SO_KEEP vl_externs = 0x1E00 \<and>
   mStencil_SFail (State_ctor vl_externs 0x1E01) = SO_KEEP vl_externs \<and>
   mStencil_DpFail (State_ctor vl_externs 0x1E01) = SO_KEEP vl_externs"
  by (simp add: State_ctor_def vl_externs_def)

section \<open>Save and restore\<close>

lemmas setter_defs =
  setColor_def setPointSize_def setImage_def setPoint_def setTextureMode_def setLogicOp_def
  setLineWidth_def setPointSmoothing_def setLineSmoothing_def setPolygonSmoothing_def
  setLineStipple_def setPolygonStipple_def setAlphaFunc_def setColorMask_def
  setStencilTestEnabled_def setStencilMask_def setFont_def setMatrix_def resetMatrix_def
  setBlendFunc_def setBlendEquation_def setStencilOp_def setStencilFunc_def transformMatrix_def

lemma mutate_frame:
  "mutate ext m w = w\<lparr>mState := mState (mutate ext m w), mMatrix := mMatrix (mutate ext m w)\<rparr>"
  by (cases m) (simp_all add: setter_defs)



text \<open>
  C7. On a context whose matrix stack (state stack, scissor stack) is empty,
  \<open>popMatrix()\<close> (\<open>popState()\<close>, \<open>popScissor()\<close>) returns the error StackUnderflow and
  no context.
\<close>

theorem pop_empty_stack_is_error:
  "(mMatrixStack w = [] \<longrightarrow> popMatrix w = Inl StackUnderflow) \<and>
   (mStateStack w = [] \<longrightarrow> popState w = Inl StackUnderflow) \<and>
   (mScissorStack w = [] \<longrightarrow> popScissor w = Inl StackUnderflow)"
  by (simp add: popMatrix_def popState_def popScissor_def)

theorem pop_empty_stack_is_error_witness:
  "mMatrixStack (VectorGraphics_ctor vl_externs 0x1E00) = [] \<and>
   mStateStack (VectorGraphics_ctor vl_externs 0x1E00) = [] \<and>
   mScissorStack (VectorGraphics_ctor vl_externs 0x1E00) = [] \<and>
   popMatrix (VectorGraphics_ctor vl_externs 0x1E00) = Inl StackUnderflow \<and>
   popState (VectorGraphics_ctor vl_externs 0x1E00) = Inl StackUnderflow \<and>
   popScissor (VectorGraphics_ctor vl_externs 0x1E00) = Inl StackUnderflow"
proof -
  let ?w = "VectorGraphics_ctor vl_externs 0x1E00"
  have e: "mMatrixStack ?w = []" "mStateStack ?w = []" "mScissorStack ?w = []"
    by (simp_all add: VectorGraphics_ctor_def)
  with pop_empty_stack_is_error [of ?w] show ?thesis by simp
qed

section \<open>Session start\<close>

text \<open>
  C10. \<open>startDrawing()\<close> leaves exactly the context that \<open>clear()\<close> leaves: the output
  collection is empty, and state, matrix, clip region and the three stacks are reset.
\<close>

theorem startDrawing_is_clear:
  "startDrawing ext junk w = clear ext junk w \<and>
   mActors (startDrawing ext junk w) = [] \<and>
   mState (startDrawing ext junk w) = State_ctor ext junk \<and>
   mMatrix (startDrawing ext junk w) = dmat4_identity \<and>
   mScissor (startDrawing ext junk w) = None \<and>
   mStateStack (startDrawing ext junk w) = [] \<and>
   mMatrixStack (startDrawing ext junk w) = [] \<and>
   mScissorStack (startDrawing ext junk w) = []"
  by (simp add: startDrawing_def clear_def)

section \<open>Binding a transform to the emitted actors\<close>

lemma setTransform_loop_eq:
  "setTransform_loop t as i store =
     (\<lambda>p. if p \<in> set (drop i as) then Actor_setTransform t (store p) else store p)"
proof (induction t as i store rule: setTransform_loop.induct)
  case (1 t as i store)
  show ?case
  proof (cases "i < length as")
    case True
    have d: "drop i as = as ! i # drop (i + 1) as"
      using True by (simp add: Cons_nth_drop_Suc)
    show ?thesis
      apply (subst setTransform_loop.simps)
      apply (simp only: True if_True "1.IH" [OF True])
      apply (rule ext)
      apply (simp add: d Actor_setTransform_def)
      done
  next
    case False
    then show ?thesis by (subst setTransform_loop.simps) simp
  qed
qed

lemma setTransform_eq:
  "setTransform t w =
     w\<lparr>actor_store := (\<lambda>p. if p \<in> set (mActors w)
                              then (actor_store w p)\<lparr>actor_transform := t\<rparr>
                              else actor_store w p)\<rparr>"
  unfolding setTransform_def setTransform_loop_eq Actor_setTransform_def drop_0 by (rule refl)

text \<open>
  C8. \<open>setTransform(t)\<close> changes the transform of the actors that the output collection
  refers to into \<open>t\<close>, and nothing else: no other actor and no other member of an actor,
  and the collection, the live state, the current matrix, the scissor and the three
  stacks are as before.
\<close>

theorem setTransform_binds_all:
  "setTransform t w =
     w\<lparr>actor_store := (\<lambda>p. if p \<in> set (mActors w)
                              then (actor_store w p)\<lparr>actor_transform := t\<rparr>
                              else actor_store w p)\<rparr> \<and>
   (\<forall>p \<in> set (mActors w). actor_transform (actor_store (setTransform t w) p) = t) \<and>
   mActors (setTransform t w) = mActors w \<and>
   mState (setTransform t w) = mState w \<and>
   mMatrix (setTransform t w) = mMatrix w \<and>
   mScissor (setTransform t w) = mScissor w \<and>
   mStateStack (setTransform t w) = mStateStack w \<and>
   mMatrixStack (setTransform t w) = mMatrixStack w \<and>
   mScissorStack (setTransform t w) = mScissorStack w"
proof (intro conjI)
  show "setTransform t w =
     w\<lparr>actor_store := (\<lambda>p. if p \<in> set (mActors w)
                              then (actor_store w p)\<lparr>actor_transform := t\<rparr>
                              else actor_store w p)\<rparr>"
    by (rule setTransform_eq)
  show "\<forall>p \<in> set (mActors w). actor_transform (actor_store (setTransform t w) p) = t"
    by (subst setTransform_eq) simp
qed (simp_all add: setTransform_def)

text \<open>A collection that refers to actor 1 twice and to actor 2 once.\<close>

theorem setTransform_binds_all_witness:
  "mActors ((VectorGraphics_ctor vl_externs 0x1E00)\<lparr>mActors := [1, 2, 1]\<rparr>) = [1, 2, 1] \<and>
   actor_transform (actor_store
     (setTransform 77 ((VectorGraphics_ctor vl_externs 0x1E00)\<lparr>mActors := [1, 2, 1]\<rparr>)) 1) = 77 \<and>
   actor_transform (actor_store
     (setTransform 77 ((VectorGraphics_ctor vl_externs 0x1E00)\<lparr>mActors := [1, 2, 1]\<rparr>)) 2) = 77 \<and>
   mActors (setTransform 77 ((VectorGraphics_ctor vl_externs 0x1E00)\<lparr>mActors := [1, 2, 1]\<rparr>))
     = [1, 2, 1]"
proof -
  let ?w = "(VectorGraphics_ctor vl_externs 0x1E00)\<lparr>mActors := [1, 2, 1]\<rparr>"
  have m: "mActors ?w = [1, 2, 1]" by simp
  from setTransform_binds_all [of 77 ?w]
  have b: "\<forall>p \<in> set (mActors ?w). actor_transform (actor_store (setTransform 77 ?w) p) = 77"
    and a: "mActors (setTransform 77 ?w) = mActors ?w"
    by blast+
  from b m have "actor_transform (actor_store (setTransform 77 ?w) 1) = 77"
    "actor_transform (actor_store (setTransform 77 ?w) 2) = 77" by simp_all
  with a m show ?thesis by simp
qed

section \<open>The colour mask\<close>

lemma mask01_ctor: "mask01 (mColorMask (State_ctor ext junk))"
  by (simp add: mask01_def State_ctor_def)

lemma mask_inv_mutate: "mask_inv w \<Longrightarrow> mask_inv (mutate ext m w)"
  by (cases m) (simp_all add: setter_defs mask_inv_def mask01_def)

lemma currentEffect_of_frame:
  "mState (snd (currentEffect_of s w)) = mState w"
  "mStateStack (snd (currentEffect_of s w)) = mStateStack w"
  by (simp_all add: currentEffect_of_def Let_def split: option.splits)

lemma resolveTexture_frame:
  "mState (snd (resolveTexture i w)) = mState w"
  "mStateStack (snd (resolveTexture i w)) = mStateStack w"
  by (simp_all add: resolveTexture_def Let_def split: option.splits)

lemma resolveScissor_frame:
  "mState (snd (resolveScissor x y a b w)) = mState w"
  "mStateStack (snd (resolveScissor x y a b w)) = mStateStack w"
  by (simp_all add: resolveScissor_def Let_def split: option.splits)

lemma draw_frame:
  "mState (snd (draw w)) = mState w" "mStateStack (snd (draw w)) = mStateStack w"
  by (simp_all add: draw_def currentEffect_def Let_def split_beta currentEffect_of_frame
      resolveTexture_frame)

lemma setScissor_frame:
  "mState (setScissor x y a b w) = mState w" "mStateStack (setScissor x y a b w) = mStateStack w"
  by (simp_all add: setScissor_def split_beta resolveScissor_frame)

lemma pushScissor_frame:
  "mState (pushScissor x y a b w) = mState w" "mStateStack (pushScissor x y a b w) = mStateStack w"
  by (simp_all add: pushScissor_def split_beta Let_def resolveScissor_frame)

lemma list_all_last: "xs \<noteq> [] \<Longrightarrow> list_all P xs \<Longrightarrow> P (last xs)"
  by (simp add: list_all_iff)

lemma list_all_butlast: "list_all P xs \<Longrightarrow> list_all P (butlast xs)"
  by (auto simp: list_all_iff dest: in_set_butlastD)

lemma mask_inv_popState: "mask_inv w \<Longrightarrow> popState w = Inr w' \<Longrightarrow> mask_inv w'"
proof -
  assume i: "mask_inv w" and p: "popState w = Inr w'"
  from p have ne: "mStateStack w \<noteq> []" by (auto simp: popState_def split: if_splits)
  from i ne have "mask01 (mColorMask (last (mStateStack w)))"
    by (intro list_all_last [of "mStateStack w" "\<lambda>s. mask01 (mColorMask s)"])
       (simp_all add: mask_inv_def)
  moreover from i have "list_all (\<lambda>s. mask01 (mColorMask s)) (butlast (mStateStack w))"
    by (intro list_all_butlast) (simp add: mask_inv_def)
  ultimately show ?thesis using p by (auto simp: popState_def mask_inv_def split: if_splits)
qed

lemma mask_inv_popMatrix: "mask_inv w \<Longrightarrow> popMatrix w = Inr w' \<Longrightarrow> mask_inv w'"
  by (auto simp: popMatrix_def mask_inv_def split: if_splits)

lemma mask_inv_popScissor: "mask_inv w \<Longrightarrow> popScissor w = Inr w' \<Longrightarrow> mask_inv w'"
  by (auto simp: popScissor_def mask_inv_def split: if_splits)

lemma mask_inv_total:
  assumes "mask_inv w"
  shows "mask_inv (pushMatrix w)" "mask_inv (pushState w)" "mask_inv (removeScissor w)"
    "mask_inv (clear ext junk w)" "mask_inv (startDrawing ext junk w)"
    "mask_inv (continueDrawing ext junk w)" "mask_inv (endDrawing rc w)"
  using assms
  by (simp_all add: mask_inv_def pushMatrix_def pushState_def removeScissor_def clear_def
      startDrawing_def continueDrawing_def endDrawing_def mask01_ctor)

lemma mask_inv_session:
  assumes "mask_inv w"
  shows "mask_inv (setScissor x y a b w)" "mask_inv (pushScissor x y a b w)"
    "mask_inv (setTransform t w)" "mask_inv (snd (currentEffect w))" "mask_inv (snd (draw w))"
  using assms
  by (simp_all add: mask_inv_def setScissor_frame pushScissor_frame setTransform_def
      currentEffect_def currentEffect_of_frame draw_frame)

lemma mask_inv_step: "mask_inv w \<Longrightarrow> step ext op w = Inr w' \<Longrightarrow> mask_inv w'"
  by (cases op)
     (auto intro: mask_inv_mutate mask_inv_popState mask_inv_popMatrix mask_inv_popScissor
        mask_inv_total mask_inv_session)

lemma reachable_mask_inv: "reachable ext w \<Longrightarrow> mask_inv w"
proof (induction rule: reachable.induct)
  case (reachable_ctor junk)
  show ?case by (simp add: mask_inv_def VectorGraphics_ctor_def mask01_ctor)
next
  case (reachable_step w op w')
  then show ?case by (blast intro: mask_inv_step)
qed

text \<open>
  C9. In every session that a constructed object reaches by public operations, each of
  the four components of \<open>colorMask()\<close> is 0 or 1.
\<close>

theorem colorMask_is_01:
  assumes "reachable ext w"
  shows "vr (mColorMask (mState w)) \<in> {0, 1} \<and> vg (mColorMask (mState w)) \<in> {0, 1} \<and>
         vb (mColorMask (mState w)) \<in> {0, 1} \<and> va (mColorMask (mState w)) \<in> {0, 1}"
  using reachable_mask_inv [OF assms] by (auto simp: mask_inv_def mask01_def)

text \<open>The session after \<open>pushState(); setColorMask(true, false, true, false)\<close>.\<close>

theorem colorMask_is_01_witness:
  "reachable vl_externs
     (setColorMask True False True False (pushState (VectorGraphics_ctor vl_externs 0x1E00))) \<and>
   vr (mColorMask (mState
     (setColorMask True False True False (pushState (VectorGraphics_ctor vl_externs 0x1E00)))))
     \<in> {0, 1} \<and>
   mColorMask (mState
     (setColorMask True False True False (pushState (VectorGraphics_ctor vl_externs 0x1E00))))
     = Vec4 1 0 1 0"
proof -
  let ?w0 = "VectorGraphics_ctor vl_externs 0x1E00"
  let ?w1 = "pushState ?w0"
  let ?w2 = "setColorMask True False True False ?w1"
  have r0: "reachable vl_externs ?w0" by (rule reachable_ctor)
  have "step vl_externs PushState ?w0 = Inr ?w1" by simp
  with r0 have r1: "reachable vl_externs ?w1" by (rule reachable_step)
  have "step vl_externs (Mutate (SetColorMask True False True False)) ?w1 = Inr ?w2" by simp
  with r1 have r2: "reachable vl_externs ?w2" by (rule reachable_step)
  have m: "mColorMask (mState ?w2) = Vec4 1 0 1 0" by (simp add: setColorMask_def)
  from colorMask_is_01 [OF r2] r2 m show ?thesis by blast
qed

section \<open>The style-resource cache\<close>

lemma lex_less_all_not_lt: "list_all (\<lambda>p. \<not> snd p) P \<Longrightarrow> \<not> lex_less P"
  by (induction P rule: lex_less.induct) auto

lemma memcmp_same: "memcmp xs xs n = 0"
  using memcmp_flip [of xs xs n] by simp

lemma State_less_irrefl: "\<not> State_less s s"
  unfolding State_less_lex
  by (rule lex_less_all_not_lt) (simp add: State_cmps_def float_lt_def memcmp_same)

lemma State_equiv_refl: "State_equiv s s"
  by (simp add: State_equiv_def State_less_irrefl)

lemma State_equiv_sym: "State_equiv a b \<Longrightarrow> State_equiv b a"
  by (simp add: State_equiv_def)

lemma float_eq_trans: "float_eq x y \<Longrightarrow> float_eq y z \<Longrightarrow> float_eq x z"
  by (auto simp: float_eq_def float_ne_def)

lemma State_fields_equal_trans:
  "State_fields_equal a b \<Longrightarrow> State_fields_equal b c \<Longrightarrow> State_fields_equal a c"
  unfolding State_fields_equal_def
  by (elim conjE, intro conjI) (erule (1) float_eq_trans trans)+

lemma State_equiv_trans:
  "State_ok a \<Longrightarrow> State_ok b \<Longrightarrow> State_ok c \<Longrightarrow>
   State_equiv a b \<Longrightarrow> State_equiv b c \<Longrightarrow> State_equiv a c"
  using State_fields_equal_trans [of a b c] by (simp add: State_equiv_fields)

text \<open>A state with a NaN as its red component is neither less nor greater than any state.\<close>

lemma nan_red_equiv: "isnan (vr (mColor s)) \<Longrightarrow> State_equiv s x \<and> State_equiv x s"
  by (simp add: State_equiv_def State_less_def float_ne_def float_lt_def)

lemma map_find_append:
  "map_find lt (m @ m') k = (case map_find lt m k of Some v \<Rightarrow> Some v | None \<Rightarrow> map_find lt m' k)"
  by (induction m) auto

lemma map_find_State_equiv:
  "map_find State_less ((k', v) # m) k = (if State_equiv k' k then Some v else map_find State_less m k)"
  by (simp add: State_equiv_def)

lemma map_find_cong_equiv:
  assumes "State_equiv a b" "State_ok a" "State_ok b" "\<forall>k \<in> fst ` set m. State_ok k"
  shows "map_find State_less m a = map_find State_less m b"
  using assms(4)
proof (induction m)
  case Nil
  show ?case by simp
next
  case (Cons e m)
  obtain k v where e: "e = (k, v)" by (cases e)
  from Cons.prems e have k: "State_ok k" by simp
  have "State_equiv k a = State_equiv k b"
    using assms(1-3) k State_equiv_trans [of k a b] State_equiv_trans [of k b a] State_equiv_sym [of a b]
    by blast
  with Cons e show ?case by (simp only: map_find_State_equiv) simp
qed

text \<open>
  On keys without NaN that the order tells apart pairwise, the entry found does not
  depend on where it stands: whichever entry has a key equal to the key looked up is the
  one returned.
\<close>

lemma map_find_any_order:
  assumes "State_ok k" "\<forall>k' \<in> fst ` set m. State_ok k'" "pairwise_differ (map fst m)"
    "(k', v) \<in> set m" "State_equiv k' k"
  shows "map_find State_less m k = Some v"
  using assms(2-4)
proof (induction m)
  case Nil
  then show ?case by simp
next
  case (Cons e m)
  obtain k0 v0 where e: "e = (k0, v0)" by (cases e)
  show ?case
  proof (cases "(k', v) = e")
    case True
    with e assms(5) show ?thesis by (simp add: map_find_State_equiv del: map_find.simps(2))
  next
    case False
    with Cons.prems(3) have in_m: "(k', v) \<in> set m" by simp
    then have k'm: "k' \<in> set (map fst m)" by force
    from Cons.prems(2) e k'm have d: "\<not> State_equiv k0 k'" by auto
    from Cons.prems(1) e in_m have ok: "State_ok k0" "State_ok k'" by auto
    have "\<not> State_equiv k0 k"
    proof
      assume "State_equiv k0 k"
      with assms(1,5) ok have "State_equiv k0 k'"
        using State_equiv_trans [of k0 k k'] State_equiv_sym [of k' k] by blast
      with d show False by simp
    qed
    moreover have "map_find State_less m k = Some v"
      using Cons.prems e in_m by (intro Cons.IH) simp_all
    ultimately show ?thesis by (simp add: e map_find_State_equiv del: map_find.simps(2))
  qed
qed

lemma currentEffect_of_hit:
  "map_find State_less (mVGToEffectMap w) k = Some e \<Longrightarrow> currentEffect_of k w = (e, w)"
  by (simp add: currentEffect_of_def)

lemma currentEffect_of_cache:
  "\<exists>x. mVGToEffectMap (snd (currentEffect_of k w)) = mVGToEffectMap w @ x"
  by (simp add: currentEffect_of_def Let_def split: option.splits)

lemma resolve_all_cache:
  "\<exists>x. mVGToEffectMap (resolve_all ks w) = mVGToEffectMap w @ x"
proof (induction ks arbitrary: w)
  case Nil
  show ?case by simp
next
  case (Cons k ks)
  obtain x where x: "mVGToEffectMap (snd (currentEffect_of k w)) = mVGToEffectMap w @ x"
    using currentEffect_of_cache by blast
  obtain y where "mVGToEffectMap (resolve_all ks (snd (currentEffect_of k w)))
      = mVGToEffectMap (snd (currentEffect_of k w)) @ y"
    using Cons.IH by blast
  with x show ?case by simp
qed

lemma currentEffect_of_found:
  "map_find State_less (mVGToEffectMap (snd (currentEffect_of k w))) k = Some (fst (currentEffect_of k w))"
  by (simp add: currentEffect_of_def Let_def map_find_append State_equiv_refl [unfolded State_equiv_def]
      State_less_irrefl split: option.splits)

text \<open>
  C1, as the code has it. In a cache that is keyed by states without NaN only (the keys
  it holds, the two states resolved and the keys resolved in between): for two states
  equal under the order (neither is less than the other), resolving the first, then any
  run of other keys, then the second returns the instance that the first resolve
  returned; the second resolve is a hit: it leaves the session as it was, and the
  factory's count with it.
\<close>

theorem currentEffect_same_instance:
  assumes "State_equiv a b" and "State_ok a" and "State_ok b"
    and "\<forall>k \<in> set (cache_keys w). State_ok k" and "\<forall>k \<in> set ks. State_ok k"
  shows "fst (currentEffect_of b (resolve_all ks (snd (currentEffect_of a w))))
           = fst (currentEffect_of a w) \<and>
         snd (currentEffect_of b (resolve_all ks (snd (currentEffect_of a w))))
           = resolve_all ks (snd (currentEffect_of a w)) \<and>
         effects_built (snd (currentEffect_of b (resolve_all ks (snd (currentEffect_of a w)))))
           = effects_built (resolve_all ks (snd (currentEffect_of a w)))"
proof -
  let ?w1 = "snd (currentEffect_of a w)"
  let ?e = "fst (currentEffect_of a w)"
  let ?w2 = "resolve_all ks ?w1"
  have keys: "\<forall>k \<in> fst ` set (mVGToEffectMap ?w1). State_ok k"
    using assms(2,4) by (auto simp: cache_keys_def currentEffect_of_def Let_def split: option.splits)
  have "map_find State_less (mVGToEffectMap ?w1) a = Some ?e"
    by (rule currentEffect_of_found)
  then have "map_find State_less (mVGToEffectMap ?w1) b = Some ?e"
    using map_find_cong_equiv [OF assms(1-3) keys] by simp
  moreover obtain x where "mVGToEffectMap ?w2 = mVGToEffectMap ?w1 @ x"
    using resolve_all_cache by blast
  ultimately have "map_find State_less (mVGToEffectMap ?w2) b = Some ?e"
    by (simp add: map_find_append)
  then have "currentEffect_of b ?w2 = (?e, ?w2)" by (rule currentEffect_of_hit)
  then show ?thesis by simp
qed

lemma default_State_facts:
  "State_ok default_State" "State_ok (default_State\<lparr>mPointSize := 7\<rparr>)"
  "State_ok (default_State\<lparr>mAlphaFuncRefValue := 0x80000000\<rparr>)"
  "State_fields_equal default_State (default_State\<lparr>mAlphaFuncRefValue := 0x80000000\<rparr>)"
  "\<not> State_fields_equal default_State (default_State\<lparr>mPointSize := 7\<rparr>)"
  by (simp_all add: default_State_def State_ok_def State_wf_def State_no_nan_def
      State_fields_equal_def State_ctor_def vl_externs_def float_eq_def float_ne_def)

lemma default_State_equiv:
  "State_equiv default_State (default_State\<lparr>mAlphaFuncRefValue := 0x80000000\<rparr>)"
  "\<not> State_equiv default_State (default_State\<lparr>mPointSize := 7\<rparr>)"
  using default_State_facts by (simp_all add: State_equiv_fields)

lemma nan_State_equiv: "State_equiv nan_State x" "State_equiv x nan_State"
  using nan_red_equiv [of nan_State x] by (simp_all add: nan_State_def)

lemma fresh_session_facts:
  "mVGToEffectMap fresh_session = []" "effects_built fresh_session = 0"
  "mActors fresh_session = []" "mScissor fresh_session = None"
  by (simp_all add: fresh_session_def VectorGraphics_ctor_def)

lemma fresh_session_reachable: "reachable vl_externs fresh_session"
  unfolding fresh_session_def by (rule reachable_ctor)

text \<open>
  The default state, and the one that differs from it by the sign of the zero in the
  alpha reference, with the point-size-7 state resolved in between.
\<close>

theorem currentEffect_same_instance_witness:
  "State_equiv default_State (default_State\<lparr>mAlphaFuncRefValue := 0x80000000\<rparr>) \<and>
   State_ok default_State \<and> State_ok (default_State\<lparr>mAlphaFuncRefValue := 0x80000000\<rparr>) \<and>
   State_ok (default_State\<lparr>mPointSize := 7\<rparr>) \<and>
   cache_keys fresh_session = [] \<and>
   fst (currentEffect_of default_State fresh_session) = 0 \<and>
   fst (currentEffect_of (default_State\<lparr>mAlphaFuncRefValue := 0x80000000\<rparr>)
          (resolve_all [default_State\<lparr>mPointSize := 7\<rparr>]
             (snd (currentEffect_of default_State fresh_session)))) = 0"
proof -
  have e: "fst (currentEffect_of default_State fresh_session) = 0"
    by (simp add: currentEffect_of_def fresh_session_facts)
  have c: "cache_keys fresh_session = []"
    by (simp add: cache_keys_def fresh_session_facts)
  have k: "\<forall>k \<in> set (cache_keys fresh_session). State_ok k" by (simp add: c)
  have ks: "\<forall>k \<in> set [default_State\<lparr>mPointSize := 7\<rparr>]. State_ok k"
    by (simp add: default_State_facts)
  from currentEffect_same_instance [OF default_State_equiv(1) default_State_facts(1)
      default_State_facts(3) k ks] e c default_State_equiv(1) default_State_facts
  show ?thesis by simp
qed

text \<open>What one resolve does to the keys of the cache and to the factory's count.\<close>

lemma map_find_None_iff:
  "(map_find State_less m k = None) = (\<forall>k' \<in> fst ` set m. \<not> State_equiv k' k)"
proof (induction m)
  case Nil
  show ?case by simp
next
  case (Cons e m)
  obtain k' v where e: "e = (k', v)" by (cases e)
  show ?case using Cons.IH by (simp add: e map_find_State_equiv del: map_find.simps(2))
qed

lemma currentEffect_of_keys:
  "cache_keys (snd (currentEffect_of k w)) =
     (if \<exists>k' \<in> set (cache_keys w). State_equiv k' k then cache_keys w else cache_keys w @ [k])"
  "effects_built (snd (currentEffect_of k w)) =
     (if \<exists>k' \<in> set (cache_keys w). State_equiv k' k then effects_built w else Suc (effects_built w))"
  "fst (currentEffect_of k w) =
     (case map_find State_less (mVGToEffectMap w) k of Some e \<Rightarrow> e | None \<Rightarrow> effects_built w)"
proof -
  have n: "(map_find State_less (mVGToEffectMap w) k = None)
             = (\<not> (\<exists>k' \<in> set (cache_keys w). State_equiv k' k))"
    by (simp add: map_find_None_iff cache_keys_def)
  show "cache_keys (snd (currentEffect_of k w)) =
     (if \<exists>k' \<in> set (cache_keys w). State_equiv k' k then cache_keys w else cache_keys w @ [k])"
    using n by (cases "map_find State_less (mVGToEffectMap w) k")
      (simp_all add: currentEffect_of_def cache_keys_def Let_def)
  show "effects_built (snd (currentEffect_of k w)) =
     (if \<exists>k' \<in> set (cache_keys w). State_equiv k' k then effects_built w else Suc (effects_built w))"
    using n by (cases "map_find State_less (mVGToEffectMap w) k")
      (simp_all add: currentEffect_of_def cache_keys_def Let_def)
  show "fst (currentEffect_of k w) =
     (case map_find State_less (mVGToEffectMap w) k of Some e \<Rightarrow> e | None \<Rightarrow> effects_built w)"
    by (simp add: currentEffect_of_def Let_def split: option.splits)
qed

text \<open>
  C1 as stated fails where a state holds a NaN. With the default state cached as
  instance 0, the state with a NaN red component and the default state with point size
  7 are equal under the order; the first is resolved to instance 0, the second, right
  after it, to the new instance 1.
\<close>

theorem nan_key_counterexample:
  "State_equiv nan_State (default_State\<lparr>mPointSize := 7\<rparr>) \<and>
   fst (currentEffect_of nan_State (snd (currentEffect_of default_State fresh_session))) = 0 \<and>
   fst (currentEffect_of (default_State\<lparr>mPointSize := 7\<rparr>)
          (resolve_all []
             (snd (currentEffect_of nan_State
                (snd (currentEffect_of default_State fresh_session)))))) = 1"
proof -
  let ?w = "snd (currentEffect_of default_State fresh_session)"
  have m: "mVGToEffectMap ?w = [(default_State, 0)]" and n: "effects_built ?w = 1"
    by (simp_all add: currentEffect_of_def fresh_session_facts)
  have "map_find State_less (mVGToEffectMap ?w) nan_State = Some 0"
    unfolding m by (simp add: map_find_State_equiv nan_State_equiv del: map_find.simps(2))
  then have h: "currentEffect_of nan_State ?w = (0, ?w)" by (rule currentEffect_of_hit)
  have "map_find State_less (mVGToEffectMap ?w) (default_State\<lparr>mPointSize := 7\<rparr>) = None"
    unfolding m by (simp add: map_find_State_equiv default_State_equiv del: map_find.simps(2))
  then have "fst (currentEffect_of (default_State\<lparr>mPointSize := 7\<rparr>) ?w) = 1"
    by (simp add: currentEffect_of_keys(3) n)
  with h nan_State_equiv(1) [of "default_State\<lparr>mPointSize := 7\<rparr>"] show ?thesis by simp
qed

lemma pairwise_differ_snoc:
  "pairwise_differ (ds @ [k]) = (pairwise_differ ds \<and> (\<forall>e \<in> set ds. \<not> State_equiv e k))"
  by (induction ds) auto

text \<open>The invariant of a run of resolves over states without NaN.\<close>

lemma resolve_all_invariant:
  assumes "\<forall>s \<in> set ss. State_ok s" "\<forall>k \<in> set (cache_keys w). State_ok k"
    "pairwise_differ (cache_keys w)"
  shows "pairwise_differ (cache_keys (resolve_all ss w)) \<and>
         set (cache_keys (resolve_all ss w)) \<subseteq> set (cache_keys w) \<union> set ss \<and>
         (\<forall>s \<in> set (cache_keys w) \<union> set ss. \<exists>k \<in> set (cache_keys (resolve_all ss w)). State_equiv k s) \<and>
         effects_built (resolve_all ss w) + length (cache_keys w)
           = effects_built w + length (cache_keys (resolve_all ss w))"
  using assms
proof (induction ss arbitrary: w)
  case Nil
  then show ?case by (auto intro: State_equiv_refl)
next
  case (Cons s ss)
  let ?w1 = "snd (currentEffect_of s w)"
  have s: "State_ok s" using Cons.prems(1) by simp
  have ok1: "\<forall>k \<in> set (cache_keys ?w1). State_ok k"
    using Cons.prems(2) s by (simp add: currentEffect_of_keys)
  have pd1: "pairwise_differ (cache_keys ?w1)"
    using Cons.prems(3) by (simp add: currentEffect_of_keys pairwise_differ_snoc)
  have ss: "\<forall>s \<in> set ss. State_ok s" using Cons.prems(1) by simp
  note IH = Cons.IH [OF ss ok1 pd1]
  have sub1: "set (cache_keys ?w1) \<subseteq> set (cache_keys w) \<union> {s}"
    by (auto simp: currentEffect_of_keys)
  have cov1: "\<forall>x \<in> set (cache_keys w) \<union> {s}. \<exists>k \<in> set (cache_keys ?w1). State_equiv k x"
    by (auto simp: currentEffect_of_keys intro: State_equiv_refl)
  have cnt1: "effects_built ?w1 + length (cache_keys w) = effects_built w + length (cache_keys ?w1)"
    by (simp add: currentEffect_of_keys)
  have cov: "\<forall>x \<in> set (cache_keys w) \<union> set (s # ss).
      \<exists>k \<in> set (cache_keys (resolve_all ss ?w1)). State_equiv k x"
  proof
    fix x assume x: "x \<in> set (cache_keys w) \<union> set (s # ss)"
    show "\<exists>k \<in> set (cache_keys (resolve_all ss ?w1)). State_equiv k x"
    proof (cases "x \<in> set ss")
      case True
      with IH show ?thesis by blast
    next
      case False
      with x have "x \<in> set (cache_keys w) \<union> {s}" by auto
      with cov1 obtain k where k: "k \<in> set (cache_keys ?w1)" "State_equiv k x" by blast
      moreover from IH have "\<forall>y \<in> set (cache_keys ?w1).
          \<exists>k \<in> set (cache_keys (resolve_all ss ?w1)). State_equiv k y"
        by blast
      ultimately obtain k' where k': "k' \<in> set (cache_keys (resolve_all ss ?w1))" "State_equiv k' k"
        by blast
      have "State_ok k" using k(1) ok1 by blast
      moreover have "State_ok x" using x Cons.prems(1,2) by auto
      moreover have "State_ok k'" using k'(1) IH ok1 ss by blast
      ultimately have "State_equiv k' x"
        using State_equiv_trans [of k' k x] k'(2) k(2) by blast
      with k'(1) show ?thesis by blast
    qed
  qed
  from IH sub1 cnt1 cov show ?case by (simp del: Un_iff) (use sub1 in auto)
qed

lemma pairwise_differ_count:
  assumes "pairwise_differ ks" "\<forall>k \<in> set ks. State_ok k" "\<forall>d \<in> set ds. State_ok d"
    "\<forall>k \<in> set ks. \<exists>d \<in> set ds. State_equiv k d"
  shows "length ks \<le> length ds"
  using assms
proof (induction ks arbitrary: ds)
  case Nil
  show ?case by simp
next
  case (Cons k ks)
  from Cons.prems(4) obtain d where d: "d \<in> set ds" "State_equiv k d" by auto
  have okk: "State_ok k" and okd: "State_ok d" using Cons.prems(2,3) d(1) by auto
  have "\<forall>k' \<in> set ks. \<exists>d' \<in> set (remove1 d ds). State_equiv k' d'"
  proof
    fix k' assume k': "k' \<in> set ks"
    with Cons.prems(4) obtain d' where d': "d' \<in> set ds" "State_equiv k' d'" by auto
    have okk': "State_ok k'" using Cons.prems(2) k' by simp
    have "d' \<noteq> d"
    proof
      assume "d' = d"
      with d' have "State_equiv d k'" by (simp add: State_equiv_sym)
      with d(2) okk okd okk' have "State_equiv k k'"
        using State_equiv_trans [of k d k'] by blast
      with Cons.prems(1) k' show False by simp
    qed
    with d' show "\<exists>d' \<in> set (remove1 d ds). State_equiv k' d'" by auto
  qed
  moreover from Cons.prems(1) have "pairwise_differ ks" by simp
  moreover from Cons.prems(2) have "\<forall>k \<in> set ks. State_ok k" by simp
  moreover from Cons.prems(3) have "\<forall>e \<in> set (remove1 d ds). State_ok e"
    by (auto dest: notin_set_remove1)
  ultimately have "length ks \<le> length (remove1 d ds)" by (intro Cons.IH)
  also have "\<dots> = length ds - 1" using d(1) by (simp add: length_remove1)
  finally show ?case using d(1) by (cases ds) auto
qed

lemma currentEffect_of_proj:
  assumes "mVGToEffectMap w = mVGToEffectMap w'" "effects_built w = effects_built w'"
  shows "mVGToEffectMap (snd (currentEffect_of s w)) = mVGToEffectMap (snd (currentEffect_of s w'))"
    "effects_built (snd (currentEffect_of s w)) = effects_built (snd (currentEffect_of s w'))"
  using assms by (simp_all add: currentEffect_of_def Let_def split: option.splits)

lemma resolveTexture_cache:
  "mVGToEffectMap (snd (resolveTexture i w)) = mVGToEffectMap w"
  "effects_built (snd (resolveTexture i w)) = effects_built w"
  "mActors (snd (resolveTexture i w)) = mActors w"
  by (simp_all add: resolveTexture_def Let_def split: option.splits)

lemma currentEffect_of_actors: "mActors (snd (currentEffect_of s w)) = mActors w"
  by (simp add: currentEffect_of_def Let_def split: option.splits)

lemma draw_cache:
  "mVGToEffectMap (snd (draw w)) = mVGToEffectMap (snd (currentEffect_of (mState w) w))"
  "effects_built (snd (draw w)) = effects_built (snd (currentEffect_of (mState w) w))"
  "mActors (snd (draw w)) = mActors w @ [next_actor (snd (draw w)) - 1]"
  by (simp_all add: draw_def currentEffect_def Let_def split_beta resolveTexture_cache
      currentEffect_of_actors)

lemma draw_calls_resolve_all:
  assumes "mVGToEffectMap w = mVGToEffectMap w'" "effects_built w = effects_built w'"
  shows "mVGToEffectMap (draw_calls ss w) = mVGToEffectMap (resolve_all ss w') \<and>
         effects_built (draw_calls ss w) = effects_built (resolve_all ss w')"
  using assms
proof (induction ss arbitrary: w w')
  case Nil
  then show ?case by simp
next
  case (Cons s ss)
  let ?v = "w\<lparr>mState := s\<rparr>"
  have "mVGToEffectMap (snd (draw ?v)) = mVGToEffectMap (snd (currentEffect_of s w'))"
    "effects_built (snd (draw ?v)) = effects_built (snd (currentEffect_of s w'))"
    using currentEffect_of_proj [of ?v w' s] Cons.prems by (simp_all add: draw_cache)
  from Cons.IH [OF this] show ?case by simp
qed

lemma draw_calls_actors: "length (mActors (draw_calls ss w)) = length (mActors w) + length ss"
proof (induction ss arbitrary: w)
  case Nil
  show ?case by simp
next
  case (Cons s ss)
  have "length (mActors (snd (draw (w\<lparr>mState := s\<rparr>)))) = Suc (length (mActors w))"
    by (subst draw_cache(3)) simp
  with Cons.IH [of "snd (draw (w\<lparr>mState := s\<rparr>))"] show ?case by simp
qed

text \<open>
  C3, as the code has it. A run of N draw calls that starts on an empty style-resource
  cache, is made with states without NaN, and uses only the K distinct states \<open>ds\<close>
  (distinct under the order) invokes the factory exactly K times, while the output
  collection grows by N.
\<close>

theorem factory_invoked_once_per_value:
  assumes "mVGToEffectMap w = []" and "\<forall>s \<in> set ss. State_ok s" and "distinct_values ds ss"
  shows "effects_built (draw_calls ss w) = effects_built w + length ds \<and>
         length (mActors (draw_calls ss w)) = length (mActors w) + length ss"
proof -
  from assms(3) have sub: "set ds \<subseteq> set ss" and pd: "pairwise_differ ds"
    and cov: "\<forall>s \<in> set ss. \<exists>d \<in> set ds. State_equiv s d"
    by (simp_all add: distinct_values_def)
  note ok = assms(2)
  let ?r = "resolve_all ss w"
  let ?ks = "cache_keys ?r"
  have k0: "cache_keys w = []" using assms(1) by (simp add: cache_keys_def)
  from resolve_all_invariant [of ss w] ok k0
  have pk: "pairwise_differ ?ks" and sk: "set ?ks \<subseteq> set ss"
    and ck: "\<forall>s \<in> set ss. \<exists>k \<in> set ?ks. State_equiv k s"
    and n: "effects_built ?r = effects_built w + length ?ks"
    by simp_all
  have okk: "\<forall>k \<in> set ?ks. State_ok k" using sk ok by blast
  have okd: "\<forall>d \<in> set ds. State_ok d" using sub ok by blast
  have "\<forall>k \<in> set ?ks. \<exists>d \<in> set ds. State_equiv k d" using sk cov by blast
  with pk okk okd have le1: "length ?ks \<le> length ds" by (intro pairwise_differ_count)
  have "\<forall>d \<in> set ds. \<exists>k \<in> set ?ks. State_equiv d k"
    using sub ck State_equiv_sym by blast
  with pd okd okk have le2: "length ds \<le> length ?ks" by (intro pairwise_differ_count)
  from draw_calls_resolve_all [of w w ss] have "effects_built (draw_calls ss w) = effects_built ?r"
    by simp
  with n le1 le2 show ?thesis by (simp add: draw_calls_actors)
qed

text \<open>Three draw calls on a new object: default state, point size 7, default state again.\<close>

theorem factory_invoked_once_per_value_witness:
  "mVGToEffectMap fresh_session = [] \<and>
   State_ok default_State \<and> State_ok (default_State\<lparr>mPointSize := 7\<rparr>) \<and>
   distinct_values [default_State, default_State\<lparr>mPointSize := 7\<rparr>]
     [default_State, default_State\<lparr>mPointSize := 7\<rparr>, default_State] \<and>
   effects_built (draw_calls
     [default_State, default_State\<lparr>mPointSize := 7\<rparr>, default_State] fresh_session) = 2 \<and>
   length (mActors (draw_calls
     [default_State, default_State\<lparr>mPointSize := 7\<rparr>, default_State] fresh_session)) = 3"
proof -
  let ?ss = "[default_State, default_State\<lparr>mPointSize := 7\<rparr>, default_State]"
  let ?ds = "[default_State, default_State\<lparr>mPointSize := 7\<rparr>]"
  have w: "\<forall>s \<in> set ?ss. State_ok s" by (simp add: default_State_facts)
  have d: "distinct_values ?ds ?ss"
    by (simp add: distinct_values_def default_State_equiv State_equiv_refl)
  from factory_invoked_once_per_value [OF fresh_session_facts(1) w d] d fresh_session_facts
    default_State_facts
  show ?thesis by simp
qed

lemma one_draw:
  "mVGToEffectMap (draw_calls [k] fresh_session) = [(k, 0)]"
  "effects_built (draw_calls [k] fresh_session) = 1"
proof -
  have r: "mVGToEffectMap (draw_calls [k] fresh_session)
             = mVGToEffectMap (resolve_all [k] fresh_session)"
    "effects_built (draw_calls [k] fresh_session)
             = effects_built (resolve_all [k] fresh_session)"
    using draw_calls_resolve_all [of fresh_session fresh_session "[k]"] by blast+
  show "mVGToEffectMap (draw_calls [k] fresh_session) = [(k, 0)]"
    unfolding r by (simp add: currentEffect_of_def fresh_session_facts)
  show "effects_built (draw_calls [k] fresh_session) = 1"
    unfolding r by (simp add: currentEffect_of_def fresh_session_facts)
qed

lemma draw_hit:
  assumes "mVGToEffectMap w = [(k', e)]" "State_equiv k' k"
  shows "effects_built (draw_calls [k] w) = effects_built w"
    and "mVGToEffectMap (draw_calls [k] w) = mVGToEffectMap w"
proof -
  have "map_find State_less (mVGToEffectMap w) k = Some e"
    using assms by (simp add: map_find_State_equiv del: map_find.simps(2))
  then have h: "currentEffect_of k w = (e, w)" by (rule currentEffect_of_hit)
  have r: "mVGToEffectMap (draw_calls [k] w) = mVGToEffectMap (resolve_all [k] w)"
    "effects_built (draw_calls [k] w) = effects_built (resolve_all [k] w)"
    using draw_calls_resolve_all [of w w "[k]"] by blast+
  show "effects_built (draw_calls [k] w) = effects_built w" unfolding r by (simp add: h)
  show "mVGToEffectMap (draw_calls [k] w) = mVGToEffectMap w" unfolding r by (simp add: h)
qed

lemma draw_calls_append: "draw_calls (xs @ ys) w = draw_calls ys (draw_calls xs w)"
  by (induction xs arbitrary: w) simp_all

text \<open>
  C3 as stated fails in two ways. On a warm cache: a first session draws once with the
  default state, \<open>endDrawing(false)\<close> keeps the caches, \<open>startDrawing()\<close> opens a
  second session, and the one draw call of that session, with the one state, invokes the
  factory zero times (its count is 1 before and after). With a NaN: on a new object,
  three draw calls with the NaN state, the default state and the point-size-7 state use
  the two distinct states default and point size 7 (the NaN state is equal to both), and
  the factory is invoked once.
\<close>

theorem factory_count_counterexample:
  "distinct_values [default_State] [default_State] \<and>
   effects_built (startDrawing vl_externs 0x1E00
      (endDrawing False (draw_calls [default_State] fresh_session))) = 1 \<and>
   effects_built (draw_calls [default_State]
      (startDrawing vl_externs 0x1E00
         (endDrawing False (draw_calls [default_State] fresh_session)))) = 1 \<and>
   distinct_values [default_State, default_State\<lparr>mPointSize := 7\<rparr>]
     [nan_State, default_State, default_State\<lparr>mPointSize := 7\<rparr>] \<and>
   mVGToEffectMap fresh_session = [] \<and> effects_built fresh_session = 0 \<and>
   effects_built (draw_calls [nan_State, default_State, default_State\<lparr>mPointSize := 7\<rparr>]
      fresh_session) = 1"
proof -
  let ?w1 = "draw_calls [default_State] fresh_session"
  let ?w3 = "startDrawing vl_externs 0x1E00 (endDrawing False ?w1)"
  have m: "mVGToEffectMap ?w3 = [(default_State, 0)]" and n: "effects_built ?w3 = 1"
    by (simp_all add: startDrawing_def clear_def endDrawing_def one_draw del: draw_calls.simps)
  have "effects_built (draw_calls [default_State] ?w3) = effects_built ?w3"
    using m State_equiv_refl by (rule draw_hit(1))
  with n have a: "effects_built (draw_calls [default_State] ?w3) = 1" by (simp only:)
  have b: "distinct_values [default_State] [default_State]"
    by (simp add: distinct_values_def State_equiv_refl)
  let ?p7 = "default_State\<lparr>mPointSize := 7\<rparr>"
  let ?v1 = "draw_calls [nan_State] fresh_session"
  let ?v2 = "draw_calls [default_State] ?v1"
  have v1: "mVGToEffectMap ?v1 = [(nan_State, 0)]" "effects_built ?v1 = 1"
    by (rule one_draw)+
  have v2: "mVGToEffectMap ?v2 = [(nan_State, 0)]" "effects_built ?v2 = 1"
    using draw_hit [OF v1(1) nan_State_equiv(1), of default_State] v1 by simp_all
  have v3: "effects_built (draw_calls [?p7] ?v2) = 1"
    using draw_hit(1) [OF v2(1) nan_State_equiv(1), of ?p7] v2 by simp
  have "draw_calls [nan_State, default_State, ?p7] fresh_session = draw_calls [?p7] ?v2"
    using draw_calls_append [of "[nan_State]" "[default_State, ?p7]" fresh_session]
      draw_calls_append [of "[default_State]" "[?p7]" ?v1]
    by simp
  with v3 have c: "effects_built (draw_calls [nan_State, default_State, ?p7] fresh_session) = 1"
    by (simp only:)
  have d: "distinct_values [default_State, ?p7] [nan_State, default_State, ?p7]"
    by (simp add: distinct_values_def default_State_equiv State_equiv_refl nan_State_equiv)
  from a b c d n fresh_session_facts show ?thesis by blast
qed


section \<open>The clip region\<close>

lemma RectI_less_equiv: "\<not> RectI_less a b \<Longrightarrow> \<not> RectI_less b a \<Longrightarrow> a = b"
  by (cases a; cases b) (auto simp: RectI_less_def split: if_splits)

lemma map_find_RectI:
  "list_all (\<lambda>e. scissorRect (snd e) = fst e) m \<Longrightarrow> map_find RectI_less m key = Some sc \<Longrightarrow>
   scissorRect sc = key"
  by (induction m) (auto split: if_splits dest: RectI_less_equiv)

lemma resolveScissor_rect:
  assumes "scissor_cache_ok w"
  shows "scissorRect (fst (resolveScissor x y a b w))
           = \<lparr>rect_x = x, rect_y = y, rect_width = a, rect_height = b\<rparr>"
    and "scissor_cache_ok (snd (resolveScissor x y a b w))"
proof -
  let ?key = "\<lparr>rect_x = x, rect_y = y, rect_width = a, rect_height = b\<rparr>"
  show "scissorRect (fst (resolveScissor x y a b w)) = ?key"
  proof (cases "map_find RectI_less (mRectToScissorMap w) ?key")
    case None
    then show ?thesis by (simp add: resolveScissor_def Let_def)
  next
    case (Some sc)
    with assms have "scissorRect sc = ?key"
      by (intro map_find_RectI [of "mRectToScissorMap w"]) (simp_all add: scissor_cache_ok_def)
    with Some show ?thesis by (simp add: resolveScissor_def Let_def)
  qed
  show "scissor_cache_ok (snd (resolveScissor x y a b w))"
    using assms
    by (cases "map_find RectI_less (mRectToScissorMap w) ?key")
       (simp_all add: resolveScissor_def Let_def scissor_cache_ok_def)
qed

lemma resolveScissor_members:
  "mScissor (snd (resolveScissor x y a b w)) = mScissor w"
  "mScissorStack (snd (resolveScissor x y a b w)) = mScissorStack w"
  by (simp_all add: resolveScissor_def Let_def split: option.splits)

lemma RectI_eta:
  "\<lparr>rect_x = rect_x r, rect_y = rect_y r, rect_width = rect_width r, rect_height = rect_height r\<rparr>
     = (r::RectI)"
  by simp

lemma pushScissor_active:
  assumes "scissor_cache_ok w"
  shows "map_option scissorRect (mScissor (pushScissor x y a b w)) =
           Some (case mScissor w of
                   None \<Rightarrow> \<lparr>rect_x = x, rect_y = y, rect_width = a, rect_height = b\<rparr>
                 | Some active \<Rightarrow>
                     intersected \<lparr>rect_x = x, rect_y = y, rect_width = a, rect_height = b\<rparr>
                       (scissorRect active))"
    and "mScissorStack (pushScissor x y a b w) = mScissorStack w @ [mScissor w]"
    and "scissor_cache_ok (pushScissor x y a b w)"
proof -
  let ?n = "case mScissor w of
              None \<Rightarrow> \<lparr>rect_x = x, rect_y = y, rect_width = a, rect_height = b\<rparr>
            | Some active \<Rightarrow>
                intersected \<lparr>rect_x = x, rect_y = y, rect_width = a, rect_height = b\<rparr>
                  (scissorRect active)"
  let ?r = "resolveScissor (rect_x ?n) (rect_y ?n) (rect_width ?n) (rect_height ?n) w"
  have p: "pushScissor x y a b w =
             (snd ?r)\<lparr>mScissorStack := mScissorStack (snd ?r) @ [mScissor w], mScissor := Some (fst ?r)\<rparr>"
    by (simp add: pushScissor_def Let_def split_beta)
  have r: "scissorRect (fst ?r) = ?n"
    using resolveScissor_rect(1) [OF assms, of "rect_x ?n" "rect_y ?n" "rect_width ?n" "rect_height ?n"]
    by (simp only: RectI_eta)
  show "map_option scissorRect (mScissor (pushScissor x y a b w)) = Some ?n"
    by (simp add: p r)
  show "mScissorStack (pushScissor x y a b w) = mScissorStack w @ [mScissor w]"
    by (simp add: p resolveScissor_members)
  show "scissor_cache_ok (pushScissor x y a b w)"
    using resolveScissor_rect(2) [OF assms, of "rect_x ?n" "rect_y ?n" "rect_width ?n" "rect_height ?n"]
    by (simp add: p scissor_cache_ok_def)
qed

lemma intersected_cells: "RectI_cells (intersected a b) = RectI_cells a \<inter> RectI_cells b"
  by (auto simp: RectI_cells_def intersected_def Let_def)

lemma popScissor_twice:
  assumes "mScissorStack w2 = st @ [s0, s1]"
  shows "\<exists>w3 w4. popScissor w2 = Inr w3 \<and> popScissor w3 = Inr w4 \<and>
           mScissor w4 = s0 \<and> mScissorStack w4 = st"
  using assms by (simp add: popScissor_def butlast_append)

lemma mutate_scissor_cache: "mRectToScissorMap (mutate ext m w) = mRectToScissorMap w"
  by (subst mutate_frame) simp

lemma currentEffect_of_scissor_cache:
  "mRectToScissorMap (snd (currentEffect_of s w)) = mRectToScissorMap w"
  by (simp add: currentEffect_of_def Let_def split: option.splits)

lemma resolveTexture_scissor_cache:
  "mRectToScissorMap (snd (resolveTexture i w)) = mRectToScissorMap w"
  by (simp add: resolveTexture_def Let_def split: option.splits)

lemma draw_scissor_cache: "mRectToScissorMap (snd (draw w)) = mRectToScissorMap w"
  by (simp add: draw_def currentEffect_def Let_def split_beta currentEffect_of_scissor_cache
      resolveTexture_scissor_cache)

lemma setScissor_cache_ok: "scissor_cache_ok w \<Longrightarrow> scissor_cache_ok (setScissor x y a b w)"
  using resolveScissor_rect(2) [of w x y a b]
  by (simp add: setScissor_def split_beta scissor_cache_ok_def)

lemma scissor_cache_ok_pop:
  "scissor_cache_ok w \<Longrightarrow> popMatrix w = Inr w' \<Longrightarrow> scissor_cache_ok w'"
  "scissor_cache_ok w \<Longrightarrow> popState w = Inr w' \<Longrightarrow> scissor_cache_ok w'"
  "scissor_cache_ok w \<Longrightarrow> popScissor w = Inr w' \<Longrightarrow> scissor_cache_ok w'"
  by (auto simp: popMatrix_def popState_def popScissor_def scissor_cache_ok_def split: if_splits)

lemma scissor_cache_ok_total:
  assumes "scissor_cache_ok w"
  shows "scissor_cache_ok (mutate ext m w)"
    "scissor_cache_ok (pushMatrix w)" "scissor_cache_ok (pushState w)"
    "scissor_cache_ok (removeScissor w)"
    "scissor_cache_ok (clear ext junk w)" "scissor_cache_ok (startDrawing ext junk w)"
    "scissor_cache_ok (continueDrawing ext junk w)" "scissor_cache_ok (endDrawing rc w)"
    "scissor_cache_ok (setTransform t w)" "scissor_cache_ok (snd (currentEffect w))"
    "scissor_cache_ok (snd (draw w))"
  using assms
  by (simp_all add: scissor_cache_ok_def mutate_scissor_cache pushMatrix_def pushState_def
      removeScissor_def clear_def startDrawing_def continueDrawing_def endDrawing_def
      setTransform_def currentEffect_def currentEffect_of_scissor_cache draw_scissor_cache)

lemma scissor_cache_ok_step:
  "scissor_cache_ok w \<Longrightarrow> step ext op w = Inr w' \<Longrightarrow> scissor_cache_ok w'"
  by (cases op)
     (auto intro: scissor_cache_ok_total scissor_cache_ok_pop setScissor_cache_ok
        pushScissor_active(3))

lemma reachable_scissor_cache_ok: "reachable ext w \<Longrightarrow> scissor_cache_ok w"
proof (induction rule: reachable.induct)
  case (reachable_ctor junk)
  show ?case by (simp add: scissor_cache_ok_def VectorGraphics_ctor_def)
next
  case (reachable_step w op w')
  then show ?case by (blast intro: scissor_cache_ok_step)
qed

lemma pushScissorR_active:
  assumes "scissor_cache_ok w"
  shows "map_option scissorRect (mScissor (pushScissorR r w)) =
           Some (case mScissor w of None \<Rightarrow> r | Some active \<Rightarrow> intersected r (scissorRect active))"
    and "mScissorStack (pushScissorR r w) = mScissorStack w @ [mScissor w]"
    and "scissor_cache_ok (pushScissorR r w)"
  using pushScissor_active [OF assms, of "rect_x r" "rect_y r" "rect_width r" "rect_height r"]
  by (simp_all only: pushScissorR_def RectI_eta)

text \<open>
  C5, as the code has it. In a reachable session with no active clip region, after
  \<open>pushScissor(r1); pushScissor(r2)\<close> the active clip region is the intersection of
  \<open>r1\<close> and \<open>r2\<close>, which covers exactly the cells that both cover; two calls of
  \<open>popScissor()\<close> then succeed and restore no clipping and the stack as it was.
\<close>

theorem pushScissor_twice_intersects:
  assumes "reachable ext w" and "mScissor w = None"
  shows "map_option scissorRect (mScissor (pushScissorR r2 (pushScissorR r1 w)))
           = Some (intersected r2 r1) \<and>
         RectI_cells (intersected r2 r1) = RectI_cells r1 \<inter> RectI_cells r2 \<and>
         (\<exists>w3 w4. popScissor (pushScissorR r2 (pushScissorR r1 w)) = Inr w3 \<and>
                   popScissor w3 = Inr w4 \<and>
                   mScissor w4 = None \<and> mScissorStack w4 = mScissorStack w)"
proof -
  let ?w1 = "pushScissorR r1 w"
  let ?w2 = "pushScissorR r2 ?w1"
  have ok: "scissor_cache_ok w" using assms(1) by (rule reachable_scissor_cache_ok)
  have ok1: "scissor_cache_ok ?w1" using ok by (rule pushScissorR_active(3))
  have "map_option scissorRect (mScissor ?w1) = Some r1"
    using pushScissorR_active(1) [OF ok, of r1] assms(2) by simp
  then obtain sc1 where sc1: "mScissor ?w1 = Some sc1" "scissorRect sc1 = r1" by auto
  have a: "map_option scissorRect (mScissor ?w2) = Some (intersected r2 r1)"
    using pushScissorR_active(1) [OF ok1, of r2] sc1 by simp
  have "mScissorStack ?w2 = mScissorStack w @ [None, mScissor ?w1]"
    using pushScissorR_active(2) [OF ok1, of r2] pushScissorR_active(2) [OF ok, of r1] assms(2)
    by simp
  then have p: "\<exists>w3 w4. popScissor ?w2 = Inr w3 \<and> popScissor w3 = Inr w4 \<and>
      mScissor w4 = None \<and> mScissorStack w4 = mScissorStack w"
    by (rule popScissor_twice)
  have c: "RectI_cells (intersected r2 r1) = RectI_cells r1 \<inter> RectI_cells r2"
    by (auto simp: intersected_cells)
  from a c p show ?thesis by blast
qed

lemma setScissor_active:
  assumes "scissor_cache_ok w"
  shows "map_option scissorRect (mScissor (setScissor x y a b w))
           = Some \<lparr>rect_x = x, rect_y = y, rect_width = a, rect_height = b\<rparr>"
  using resolveScissor_rect(1) [OF assms, of x y a b] by (simp add: setScissor_def split_beta)

text \<open>The scenario of the spec: (0, 0, 100, 100), then (50, 50, 200, 200).\<close>

theorem pushScissor_twice_intersects_witness:
  "reachable vl_externs fresh_session \<and> mScissor fresh_session = None \<and>
   map_option scissorRect (mScissor
     (pushScissorR \<lparr>rect_x = 50, rect_y = 50, rect_width = 200, rect_height = 200\<rparr>
       (pushScissorR \<lparr>rect_x = 0, rect_y = 0, rect_width = 100, rect_height = 100\<rparr> fresh_session)))
     = Some \<lparr>rect_x = 50, rect_y = 50, rect_width = 50, rect_height = 50\<rparr>"
proof -
  have i: "intersected \<lparr>rect_x = 50, rect_y = 50, rect_width = 200, rect_height = 200\<rparr>
             \<lparr>rect_x = 0, rect_y = 0, rect_width = 100, rect_height = 100\<rparr>
           = \<lparr>rect_x = 50, rect_y = 50, rect_width = 50, rect_height = 50\<rparr>"
    by (simp add: intersected_def)
  from pushScissor_twice_intersects [OF fresh_session_reachable fresh_session_facts(4),
      of "\<lparr>rect_x = 50, rect_y = 50, rect_width = 200, rect_height = 200\<rparr>"
         "\<lparr>rect_x = 0, rect_y = 0, rect_width = 100, rect_height = 100\<rparr>"]
    fresh_session_facts fresh_session_reachable i
  show ?thesis by simp
qed

text \<open>
  C5 as stated fails where a clip region is active before the first push: with
  (0, 0, 10, 10) active, pushing (0, 0, 100, 100) twice leaves (0, 0, 10, 10) active, not
  the intersection of the two pushed rectangles, which is (0, 0, 100, 100).
\<close>

theorem pushScissor_active_counterexample:
  "map_option scissorRect (mScissor
     (pushScissorR \<lparr>rect_x = 0, rect_y = 0, rect_width = 100, rect_height = 100\<rparr>
       (pushScissorR \<lparr>rect_x = 0, rect_y = 0, rect_width = 100, rect_height = 100\<rparr>
         (setScissor 0 0 10 10 fresh_session))))
     = Some \<lparr>rect_x = 0, rect_y = 0, rect_width = 10, rect_height = 10\<rparr> \<and>
   intersected \<lparr>rect_x = 0, rect_y = 0, rect_width = 100, rect_height = 100\<rparr>
       \<lparr>rect_x = 0, rect_y = 0, rect_width = 100, rect_height = 100\<rparr>
     = \<lparr>rect_x = 0, rect_y = 0, rect_width = 100, rect_height = 100\<rparr> \<and>
   (50, 50) \<in> RectI_cells \<lparr>rect_x = 0, rect_y = 0, rect_width = 100, rect_height = 100\<rparr> \<and>
   (50, 50) \<notin> RectI_cells \<lparr>rect_x = 0, rect_y = 0, rect_width = 10, rect_height = 10\<rparr>"
proof -
  let ?r = "\<lparr>rect_x = 0, rect_y = 0, rect_width = 100, rect_height = 100\<rparr>"
  let ?w0 = "setScissor 0 0 10 10 fresh_session"
  let ?w1 = "pushScissorR ?r ?w0"
  have ok: "scissor_cache_ok fresh_session"
    using fresh_session_reachable by (rule reachable_scissor_cache_ok)
  have ok0: "scissor_cache_ok ?w0" using ok by (rule setScissor_cache_ok)
  have ok1: "scissor_cache_ok ?w1" using ok0 by (rule pushScissorR_active(3))
  have "map_option scissorRect (mScissor ?w0)
          = Some \<lparr>rect_x = 0, rect_y = 0, rect_width = 10, rect_height = 10\<rparr>"
    using ok by (rule setScissor_active)
  then obtain s0 where s0: "mScissor ?w0 = Some s0"
      "scissorRect s0 = \<lparr>rect_x = 0, rect_y = 0, rect_width = 10, rect_height = 10\<rparr>"
    by auto
  have "map_option scissorRect (mScissor ?w1)
          = Some \<lparr>rect_x = 0, rect_y = 0, rect_width = 10, rect_height = 10\<rparr>"
    using pushScissorR_active(1) [OF ok0, of ?r] s0 by (simp add: intersected_def)
  then obtain s1 where s1: "mScissor ?w1 = Some s1"
      "scissorRect s1 = \<lparr>rect_x = 0, rect_y = 0, rect_width = 10, rect_height = 10\<rparr>"
    by auto
  have "map_option scissorRect (mScissor (pushScissorR ?r ?w1))
          = Some \<lparr>rect_x = 0, rect_y = 0, rect_width = 10, rect_height = 10\<rparr>"
    using pushScissorR_active(1) [OF ok1, of ?r] s1 by (simp add: intersected_def)
  then show ?thesis by (simp add: intersected_def RectI_cells_def)
qed

end
